theory Spec2Isabelle
  imports Complex_Main
begin

section \<open>Strings of the library bot\<close>

text \<open>
  A JavaScript string is a sequence of UTF-16 code units; a code unit is modelled by its
  number. \<open>js\<close> reads an ASCII literal as such a sequence.
\<close>

type_synonym jsstring = "nat list"

definition js :: "string \<Rightarrow> jsstring" where
  "js s = map of_char s"

text \<open>The character class \<^verbatim>\<open>[\u0000-\u001F\u007F]\<close> of \<^verbatim>\<open>safeText\<close>.\<close>

definition isControl :: "nat \<Rightarrow> bool" where
  "isControl c \<longleftrightarrow> c \<le> 0x1F \<or> c = 0x7F"

text \<open>
  The code units that \<^verbatim>\<open>String.prototype.trim\<close> removes: the WhiteSpace and
  LineTerminator productions of ECMAScript.
\<close>

definition isWhiteSpace :: "nat \<Rightarrow> bool" where
  "isWhiteSpace c \<longleftrightarrow>
     c = 0x09 \<or> c = 0x0A \<or> c = 0x0B \<or> c = 0x0C \<or> c = 0x0D \<or> c = 0x20 \<or> c = 0xA0 \<or>
     c = 0x1680 \<or> (0x2000 \<le> c \<and> c \<le> 0x200A) \<or> c = 0x2028 \<or> c = 0x2029 \<or>
     c = 0x202F \<or> c = 0x205F \<or> c = 0x3000 \<or> c = 0xFEFF"

definition trim :: "jsstring \<Rightarrow> jsstring" where
  "trim s = rev (dropWhile isWhiteSpace (rev (dropWhile isWhiteSpace s)))"

text \<open>\<^verbatim>\<open>.replace(/[\u0000-\u001F\u007F]/g, '')\<close>\<close>

definition stripControl :: "jsstring \<Rightarrow> jsstring" where
  "stripControl s = filter (\<lambda>c. \<not> isControl c) s"

text \<open>
  \<^verbatim>\<open>safeText\<close> and \<^verbatim>\<open>safeFileId\<close> (index.js, lines 42-52). The argument is
  \<open>None\<close> for \<^verbatim>\<open>undefined\<close> or \<^verbatim>\<open>null\<close>.
\<close>

definition safeText :: "jsstring option \<Rightarrow> jsstring" where
  "safeText v = (case v of None \<Rightarrow> [] | Some s \<Rightarrow> trim (stripControl s))"

definition safeFileId :: "jsstring option \<Rightarrow> jsstring" where
  "safeFileId v = (case v of None \<Rightarrow> [] | Some s \<Rightarrow> trim s)"

text \<open>\<^verbatim>\<open>v || ''\<close> on a string that may be undefined.\<close>

definition orEmpty :: "jsstring option \<Rightarrow> jsstring" where
  "orEmpty v = (case v of None \<Rightarrow> [] | Some s \<Rightarrow> s)"

text \<open>\<^verbatim>\<open>r[i]\<close> on an array: undefined beyond its length.\<close>

definition cell :: "'a list \<Rightarrow> nat \<Rightarrow> 'a option" where
  "cell r i = (if i < length r then Some (r ! i) else None)"

text \<open>
  \<^verbatim>\<open>s.split('|')\<close> with a one-unit separator: never empty, \<^verbatim>\<open>''.split('|')\<close>
  is \<^verbatim>\<open>['']\<close>.
\<close>

fun split :: "nat \<Rightarrow> jsstring \<Rightarrow> jsstring list" where
  "split sep [] = [[]]"
| "split sep (c # cs) =
     (if c = sep then [] # split sep cs
      else (case split sep cs of [] \<Rightarrow> [[c]] | p # ps \<Rightarrow> (c # p) # ps))"

section \<open>Catalog, sessions and the rate limiter\<close>

record book =
  b_id :: jsstring
  b_title :: jsstring
  b_author :: jsstring
  b_file_id :: jsstring

record session =
  s_file_id :: jsstring
  s_mimeType :: jsstring

text \<open>A request pushed on \<^verbatim>\<open>db.requests\<close> (index.js, lines 856-862).\<close>

record request =
  req_id :: "int \<times> jsstring"
  req_userId :: jsstring
  req_userName :: jsstring
  req_query :: jsstring
  req_createdAt :: int

text \<open>An error thrown by a collaborator, with its message.\<close>

datatype error = Error jsstring

text \<open>
  The module-level variables of index.js (\<^verbatim>\<open>books\<close>, \<^verbatim>\<open>fuse\<close>,
  \<^verbatim>\<open>waitingForMeta\<close>, \<^verbatim>\<open>lastRequestAt\<close>, \<^verbatim>\<open>db\<close>) and the rows of the remote
  range \<^verbatim>\<open>Sheet1!A:D\<close>. \<open>fuse\<close> is the collection the Fuse index was built on; its
  options are constant.
\<close>

record state =
  books :: "book list"
  fuse :: "book list"
  waitingForMeta :: "int \<rightharpoonup> session"
  lastRequestAt :: "jsstring \<rightharpoonup> int"
  requests :: "request list"
  userStats :: "jsstring \<rightharpoonup> nat"
  sheet :: "jsstring list list"

subsection \<open>loadSheet\<close>

text \<open>
  The loop of \<^verbatim>\<open>loadSheet\<close> (index.js, lines 201-211):
  \<^verbatim>\<open>for (let i = 1; i < rows.length; i++)\<close>, pushing on \<^verbatim>\<open>parsed\<close>.
\<close>

function loadLoop :: "jsstring list list \<Rightarrow> nat \<Rightarrow> book list \<Rightarrow> book list" where
  "loadLoop rows i parsed =
     (if i < length rows then
        (let r = rows ! i;
             id' = safeText (Some (orEmpty (cell r 0)));
             title = safeText (Some (orEmpty (cell r 1)));
             author = safeText (Some (orEmpty (cell r 2)));
             file_id = safeFileId (Some (orEmpty (cell r 3)))
         in loadLoop rows (i + 1)
              (if title \<noteq> [] \<and> file_id \<noteq> []
               then parsed @ [\<lparr>b_id = id', b_title = title, b_author = author, b_file_id = file_id\<rparr>]
               else parsed))
      else parsed)"
  by pat_completeness auto
termination
  by (relation "measure (\<lambda>(rows, i, parsed). length rows - i)") auto

declare loadLoop.simps [simp del]

text \<open>
  \<^verbatim>\<open>loadSheet\<close> (index.js, lines 192-224). Its first argument is the outcome of
  \<^verbatim>\<open>sheetsClient.spreadsheets.values.get\<close>: \<open>Inl\<close> when the call rejects, otherwise
  \<^verbatim>\<open>resp.data.values\<close>, which is undefined for an empty range. The error is logged and
  thrown again.
\<close>

definition loadSheet :: "error + jsstring list list option \<Rightarrow> state \<Rightarrow> (error + nat) \<times> state" where
  "loadSheet resp st =
     (case resp of
        Inl err \<Rightarrow> (Inl err, st)
      | Inr values \<Rightarrow>
          (let rows = (case values of None \<Rightarrow> [] | Some vs \<Rightarrow> vs);
               parsed = loadLoop rows 1 []
           in (Inr (length parsed), st\<lparr>books := parsed, fuse := parsed\<rparr>)))"

text \<open>
  The record of a row and the test a row must pass, in the words of the specification:
  id, title and author cleaned by \<open>safeText\<close>, the reference by \<open>safeFileId\<close>; kept
  when title and reference are both non-empty.
\<close>

definition rowRecord :: "jsstring list \<Rightarrow> book" where
  "rowRecord r =
     \<lparr>b_id = safeText (Some (orEmpty (cell r 0))),
      b_title = safeText (Some (orEmpty (cell r 1))),
      b_author = safeText (Some (orEmpty (cell r 2))),
      b_file_id = safeFileId (Some (orEmpty (cell r 3)))\<rparr>"

definition rowKept :: "jsstring list \<Rightarrow> bool" where
  "rowKept r \<longleftrightarrow> b_title (rowRecord r) \<noteq> [] \<and> b_file_id (rowRecord r) \<noteq> []"

subsection \<open>rateLimit\<close>

definition RATE_WINDOW_MS :: int where
  "RATE_WINDOW_MS = 1000"

text \<open>
  \<^verbatim>\<open>rateLimit\<close> (index.js, lines 283-291); \<open>now\<close> is the value of \<^verbatim>\<open>Date.now()\<close>.
  \<^verbatim>\<open>lastRequestAt.get(userId) || 0\<close> is 0 for a user never seen.
\<close>

definition rateLimit :: "int \<Rightarrow> jsstring \<Rightarrow> (jsstring \<rightharpoonup> int) \<Rightarrow> bool \<times> (jsstring \<rightharpoonup> int)" where
  "rateLimit now userId m =
     (let last = (case m userId of None \<Rightarrow> 0 | Some t \<Rightarrow> t)
      in if now - last < RATE_WINDOW_MS then (False, m)
         else (True, m(userId \<mapsto> now)))"

text \<open>A sequence of calls \<open>(userId, now)\<close>, each on the map the previous one left.\<close>

fun rateLimitRun :: "(jsstring \<rightharpoonup> int) \<Rightarrow> (jsstring \<times> int) list \<Rightarrow> bool list" where
  "rateLimitRun m [] = []"
| "rateLimitRun m (c # cs) =
     (fst (rateLimit (snd c) (fst c) m) # rateLimitRun (snd (rateLimit (snd c) (fst c) m)) cs)"

section \<open>The message handler\<close>

subsection \<open>Messages, collaborators and effects\<close>

text \<open>
  The fields of a Telegram message that the handler reads. \<open>from_id\<close> is
  \<^verbatim>\<open>String(msg.from.id)\<close>; \<open>m_reply_to_message\<close> says whether the message has the
  property \<^verbatim>\<open>reply_to_message\<close>.
\<close>

record tg_chat =
  chat_type :: jsstring
  chat_id :: int

record tg_user =
  from_id :: jsstring
  username :: "jsstring option"
  first_name :: "jsstring option"
  last_name :: "jsstring option"

record tg_document =
  doc_file_id :: jsstring
  doc_mime_type :: "jsstring option"

record tg_message =
  m_chat :: "tg_chat option"
  m_from :: tg_user
  m_document :: "tg_document option"
  m_caption :: "jsstring option"
  m_text :: "jsstring option"
  m_reply_to_message :: bool

text \<open>
  \<^verbatim>\<open>ADMIN_IDS\<close> and the search of the Fuse index: \<open>fuse_search bs q\<close> stands for the
  items of \<^verbatim>\<open>fuse.search(q)\<close>, best first, on an index built on \<open>bs\<close> with the keys
  title, author and id and the threshold 0.35. Fuse.js is a library outside this
  repository.
\<close>

record config =
  ADMIN_IDS :: "jsstring list"
  fuse_search :: "book list \<Rightarrow> jsstring \<Rightarrow> book list"

text \<open>
  What the collaborators answer during one event. The clock: \<open>dateNow\<close> is
  \<^verbatim>\<open>Date.now()\<close> in \<^verbatim>\<open>rateLimit\<close>, \<open>reqNow\<close> is \<^verbatim>\<open>Date.now()\<close> in the id of a
  request, \<open>reqDate\<close> is \<^verbatim>\<open>new Date()\<close> in \<^verbatim>\<open>createdAt\<close> and \<^verbatim>\<open>time\<close>. For
  each awaited call that may reject, the error it rejects with (\<open>None\<close>: it resolves):
  \<^item> \<open>appendError\<close>: \<^verbatim>\<open>spreadsheets.values.append\<close>;
  \<^item> \<open>fetchError\<close>: \<^verbatim>\<open>spreadsheets.values.get\<close>;
  \<^item> \<open>saveDBError\<close>: \<^verbatim>\<open>fs.writeFileSync\<close> in \<^verbatim>\<open>saveDB\<close>;
  \<^item> \<open>userMessageError\<close>: the \<^verbatim>\<open>bot.sendMessage\<close> that tells the requester the outcome
    of the search (index.js, lines 868-883 and 898-911);
  \<^item> \<open>sendDocumentError\<close>: \<^verbatim>\<open>bot.sendDocument\<close>;
  \<^item> \<open>apologyError\<close>: the \<^verbatim>\<open>bot.sendMessage\<close> of the catch block (line 961);
  \<^item> \<open>adminError k\<close>: the \<^verbatim>\<open>bot.sendMessage\<close> to the k-th entry of \<^verbatim>\<open>ADMIN_IDS\<close>.

  The outcome of a \<^verbatim>\<open>bot.sendMessage\<close> that the handler returns without awaiting has
  no effect on the state.
\<close>

record env =
  dateNow :: int
  reqNow :: int
  reqDate :: int
  appendError :: "error option"
  fetchError :: "error option"
  saveDBError :: "error option"
  userMessageError :: "error option"
  sendDocumentError :: "error option"
  apologyError :: "error option"
  adminError :: "nat \<Rightarrow> error option"

text \<open>The texts the bot sends to the conversation, by their variable parts.\<close>

datatype reply =
    SlowDown
  | UnsupportedType jsstring
  | CaptionFormat
  | AlreadyInLibrary jsstring
  | Saved jsstring
  | FailedToSave jsstring error
  | AskMetadata jsstring
  | InvalidMetadata
  | SavedToSheet jsstring
  | FailedSave error
  | NoMatchAdmin jsstring
  | NoMatchUser jsstring
  | FoundAdmin book
  | FoundUser book
  | DeliveryProblem book
  | OnlyAdminAdd
  | AddUsage
  | FileIdExists
  | AddFailed error

text \<open>
  The argument of \<^verbatim>\<open>notifyAdminsAboutRequest\<close>: it reads \<^verbatim>\<open>userName\<close>,
  \<^verbatim>\<open>userId\<close>, \<^verbatim>\<open>query\<close> and \<^verbatim>\<open>time\<close>. The request of the no-match path has no
  \<^verbatim>\<open>time\<close> property.
\<close>

datatype notice_query = UserQuery jsstring | SendFailed book error

record notice =
  n_userId :: jsstring
  n_userName :: jsstring
  n_query :: notice_query
  n_time :: "int option"

datatype logline =
    NotifyAdminFailed jsstring error
  | AppendRowError error
  | LoadSheetError error
  | AdminUploadError error
  | ReplyFlowError error
  | SendDocumentFailed book error
  | HandlerError error

text \<open>
  The calls on the collaborators, in the order the handler makes them. Informational
  log lines are left out; the lines logged on a failure are kept.
\<close>

datatype effect =
    SendMessage int reply
  | SendDocument int jsstring
  | NotifyAdmin jsstring notice
  | AppendRow "jsstring list"
  | GetRows
  | SaveDB
  | FollowUp int nat
  | Log logline

subsection \<open>Helpers\<close>

definition isAdmin :: "config \<Rightarrow> jsstring \<Rightarrow> bool" where
  "isAdmin cfg userId \<longleftrightarrow> userId \<in> set (ADMIN_IDS cfg)"

definition allowedTypes :: "jsstring list" where
  "allowedTypes =
     [js ''application/pdf'',
      js ''application/msword'',
      js ''application/vnd.openxmlformats-officedocument.wordprocessingml.document'',
      js ''application/vnd.ms-excel'',
      js ''application/vnd.openxmlformats-officedocument.spreadsheetml.sheet'',
      js ''application/vnd.ms-powerpoint'',
      js ''application/vnd.openxmlformats-officedocument.presentationml.presentation'',
      js ''text/plain'',
      js ''application/rtf'',
      js ''application/epub+zip'',
      js ''application/x-mobipocket-ebook'']"

definition isValidDocumentType :: "jsstring \<Rightarrow> bool" where
  "isValidDocumentType mimeType \<longleftrightarrow> mimeType \<in> set allowedTypes"

definition findByFileId :: "book list \<Rightarrow> jsstring \<Rightarrow> book option" where
  "findByFileId bs file_id = find (\<lambda>b. b_file_id b = file_id) bs"

text \<open>
  \<^verbatim>\<open>appendRowToSheet\<close> (index.js, lines 226-243). A successful append adds the row
  after the rows of the range; a failure is logged and thrown again. The arguments are
  strings, so \<^verbatim>\<open>id || ''\<close> is \<^verbatim>\<open>id\<close>.
\<close>

definition appendRowToSheet ::
  "env \<Rightarrow> jsstring \<Rightarrow> jsstring \<Rightarrow> jsstring \<Rightarrow> jsstring \<Rightarrow> state \<Rightarrow> effect list \<times> error option \<times> state" where
  "appendRowToSheet e id' title author file_id st =
     (let values = [safeText (Some id'), safeText (Some title), safeText (Some author),
                    safeFileId (Some file_id)]
      in case appendError e of
           None \<Rightarrow> ([AppendRow values], None, st\<lparr>sheet := sheet st @ [values]\<rparr>)
         | Some err \<Rightarrow> ([AppendRow values, Log (AppendRowError err)], Some err, st))"

text \<open>
  A call of \<^verbatim>\<open>loadSheet\<close> from the handler: the rows fetched are those of the range,
  unless the call rejects.
\<close>

definition fetchRows :: "env \<Rightarrow> state \<Rightarrow> error + jsstring list list option" where
  "fetchRows e st =
     (case fetchError e of
        Some err \<Rightarrow> Inl err
      | None \<Rightarrow> Inr (if sheet st = [] then None else Some (sheet st)))"

definition reload :: "env \<Rightarrow> state \<Rightarrow> effect list \<times> error option \<times> state" where
  "reload e st =
     (case loadSheet (fetchRows e st) st of
        (Inl err, st') \<Rightarrow> ([GetRows, Log (LoadSheetError err)], Some err, st')
      | (Inr n, st') \<Rightarrow> ([GetRows], None, st'))"

text \<open>
  \<^verbatim>\<open>notifyAdminsAboutRequest\<close> (index.js, lines 260-278): one
  \<^verbatim>\<open>bot.sendMessage\<close> per entry of \<^verbatim>\<open>ADMIN_IDS\<close>, each in its own try block.
\<close>

fun notifyLoop :: "(nat \<Rightarrow> error option) \<Rightarrow> nat \<Rightarrow> jsstring list \<Rightarrow> notice \<Rightarrow> effect list" where
  "notifyLoop fails k [] n = []"
| "notifyLoop fails k (adminId # rest) n =
     NotifyAdmin adminId n #
     (case fails k of None \<Rightarrow> [] | Some err \<Rightarrow> [Log (NotifyAdminFailed adminId err)]) @
     notifyLoop fails (Suc k) rest n"

definition notifyAdminsAboutRequest :: "config \<Rightarrow> env \<Rightarrow> notice \<Rightarrow> effect list" where
  "notifyAdminsAboutRequest cfg e n = notifyLoop (adminError e) 0 (ADMIN_IDS cfg) n"

text \<open>
  \<^verbatim>\<open>text.split('|').map(s => s.trim())\<close> followed by \<^verbatim>\<open>parts[0] || ''\<close>,
  \<^verbatim>\<open>parts[1] || ''\<close>, \<^verbatim>\<open>parts[2] || ''\<close> (index.js, lines 798-801 and 827-830):
  id, title and author.
\<close>

definition metaParts :: "jsstring \<Rightarrow> jsstring \<times> jsstring \<times> jsstring" where
  "metaParts s =
     (let parts = map trim (split 124 s)
      in (orEmpty (cell parts 0), orEmpty (cell parts 1), orEmpty (cell parts 2)))"

subsection \<open>The branches of the handler\<close>

text \<open>An administrator sent a document (index.js, lines 784-822).\<close>

definition handleUpload ::
  "env \<Rightarrow> int \<Rightarrow> tg_document \<Rightarrow> jsstring option \<Rightarrow> state \<Rightarrow> effect list \<times> state" where
  "handleUpload e chatId d cap st =
     (let file_id = safeFileId (Some (doc_file_id d));
          mimeType = orEmpty (doc_mime_type d);
          caption = safeText (Some (orEmpty cap))
      in if \<not> isValidDocumentType mimeType
         then ([SendMessage chatId (UnsupportedType mimeType)], st)
         else if caption \<noteq> [] then
           (case metaParts caption of
              (id', title, author) \<Rightarrow>
                if title = [] \<or> file_id = []
                then ([SendMessage chatId CaptionFormat], st)
                else
                  (case findByFileId (books st) file_id of
                     Some b \<Rightarrow> ([SendMessage chatId (AlreadyInLibrary (b_title b))], st)
                   | None \<Rightarrow>
                       (case appendRowToSheet e id' title author file_id st of
                          (fx1, Some err, st1) \<Rightarrow>
                            (fx1 @ [Log (AdminUploadError err),
                                    SendMessage chatId (FailedToSave title err)], st1)
                        | (fx1, None, st1) \<Rightarrow>
                            (case reload e st1 of
                               (fx2, Some err, st2) \<Rightarrow>
                                 (fx1 @ fx2 @ [Log (AdminUploadError err),
                                               SendMessage chatId (FailedToSave title err)], st2)
                             | (fx2, None, st2) \<Rightarrow>
                                 (fx1 @ fx2 @ [SendMessage chatId (Saved title)], st2)))))
         else
           ([SendMessage chatId (AskMetadata mimeType)],
            st\<lparr>waitingForMeta :=
                 (waitingForMeta st)(chatId \<mapsto> \<lparr>s_file_id = file_id, s_mimeType = mimeType\<rparr>)\<rparr>))"

text \<open>
  An administrator replied while a session waits in the conversation (index.js, lines
  825-844); \<open>s\<close> is \<^verbatim>\<open>waitingForMeta[chatId]\<close>.
\<close>

definition handleMetaReply ::
  "env \<Rightarrow> int \<Rightarrow> session \<Rightarrow> jsstring \<Rightarrow> state \<Rightarrow> effect list \<times> state" where
  "handleMetaReply e chatId s txt st =
     (let meta = safeText (Some txt)
      in case metaParts meta of
           (id', title, author) \<Rightarrow>
             (let file_id = s_file_id s
              in if title = [] \<or> file_id = []
                 then ([SendMessage chatId InvalidMetadata], st)
                 else
                   (case appendRowToSheet e id' title author file_id st of
                      (fx1, Some err, st1) \<Rightarrow>
                        (fx1 @ [Log (ReplyFlowError err), SendMessage chatId (FailedSave err)], st1)
                    | (fx1, None, st1) \<Rightarrow>
                        (let st2 = st1\<lparr>waitingForMeta := (waitingForMeta st1)(chatId := None)\<rparr>
                         in case reload e st2 of
                              (fx2, Some err, st3) \<Rightarrow>
                                (fx1 @ fx2 @ [Log (ReplyFlowError err),
                                              SendMessage chatId (FailedSave err)], st3)
                            | (fx2, None, st3) \<Rightarrow>
                                (fx1 @ fx2 @ [SendMessage chatId (SavedToSheet title)], st3)))))"

text \<open>
  The catch block of the delivery (index.js, lines 949-971): the requester is told, then
  the administrators are notified; \<open>fx\<close> are the calls made before the failure.
\<close>

definition deliveryFailed ::
  "config \<Rightarrow> env \<Rightarrow> int \<Rightarrow> tg_user \<Rightarrow> book \<Rightarrow> error \<Rightarrow> effect list \<Rightarrow> effect list" where
  "deliveryFailed cfg e chatId u best err fx =
     fx @ [Log (SendDocumentFailed best err), SendMessage chatId (DeliveryProblem best)] @
     (case apologyError e of
        Some err2 \<Rightarrow> [Log (HandlerError err2)]
      | None \<Rightarrow>
          notifyAdminsAboutRequest cfg e
            \<lparr>n_userId = from_id u,
             n_userName = trim (if orEmpty (username u) \<noteq> [] then orEmpty (username u)
                                else orEmpty (first_name u)),
             n_query = SendFailed best err,
             n_time = Some (reqDate e)\<rparr>)"

text \<open>
  Plain text is a search query (index.js, lines 850-972). \<^verbatim>\<open>trackUserDownload\<close>
  counts the downloads of a user and saves the database; the follow-up message is sent
  by a timer.
\<close>

definition handleQuery ::
  "config \<Rightarrow> env \<Rightarrow> int \<Rightarrow> tg_user \<Rightarrow> jsstring \<Rightarrow> state \<Rightarrow> effect list \<times> state" where
  "handleQuery cfg e chatId u txt st =
     (let fromId = from_id u;
          query = safeText (Some (trim txt))
      in if query = [] then ([], st)
         else
           (case fuse_search cfg (fuse st) query of
              [] \<Rightarrow>
                (let req = \<lparr>req_id = (reqNow e, fromId),
                            req_userId = fromId,
                            req_userName =
                              trim (if orEmpty (username u) \<noteq> [] then orEmpty (username u)
                                    else orEmpty (first_name u) @ [32] @ orEmpty (last_name u)),
                            req_query = query,
                            req_createdAt = reqDate e\<rparr>;
                     st1 = st\<lparr>requests := requests st @ [req]\<rparr>;
                     answer = (if isAdmin cfg fromId then NoMatchAdmin query else NoMatchUser query)
                 in case saveDBError e of
                      Some err \<Rightarrow> ([SaveDB, Log (HandlerError err)], st1)
                    | None \<Rightarrow>
                        (case userMessageError e of
                           Some err \<Rightarrow>
                             ([SaveDB, SendMessage chatId answer, Log (HandlerError err)], st1)
                         | None \<Rightarrow>
                             ([SaveDB, SendMessage chatId answer] @
                              notifyAdminsAboutRequest cfg e
                                \<lparr>n_userId = fromId, n_userName = req_userName req,
                                 n_query = UserQuery query, n_time = None\<rparr>,
                              st1)))
            | best # others \<Rightarrow>
                (let found = (if isAdmin cfg fromId then FoundAdmin best else FoundUser best)
                 in case userMessageError e of
                      Some err \<Rightarrow>
                        (deliveryFailed cfg e chatId u best err [SendMessage chatId found], st)
                    | None \<Rightarrow>
                        (case sendDocumentError e of
                           Some err \<Rightarrow>
                             (deliveryFailed cfg e chatId u best err
                                [SendMessage chatId found, SendDocument chatId (b_file_id best)],
                              st)
                         | None \<Rightarrow>
                             if isAdmin cfg fromId
                             then ([SendMessage chatId found, SendDocument chatId (b_file_id best)],
                                   st)
                             else
                               (let downloads =
                                      (case userStats st fromId of None \<Rightarrow> 0 | Some c \<Rightarrow> c) + 1;
                                    st1 = st\<lparr>userStats := (userStats st)(fromId \<mapsto> downloads)\<rparr>
                                in case saveDBError e of
                                     Some err \<Rightarrow>
                                       (deliveryFailed cfg e chatId u best err
                                          [SendMessage chatId found,
                                           SendDocument chatId (b_file_id best), SaveDB],
                                        st1)
                                   | None \<Rightarrow>
                                       ([SendMessage chatId found,
                                         SendDocument chatId (b_file_id best), SaveDB,
                                         FollowUp chatId downloads],
                                        st1))))))"

subsection \<open>The handler\<close>

text \<open>
  \<^verbatim>\<open>bot.on('message', ...)\<close> (index.js, lines 770-977). An absent or empty string is
  falsy.
\<close>

definition truthy :: "jsstring option \<Rightarrow> bool" where
  "truthy v \<longleftrightarrow> orEmpty v \<noteq> []"

definition onMessage :: "config \<Rightarrow> env \<Rightarrow> tg_message option \<Rightarrow> state \<Rightarrow> effect list \<times> state" where
  "onMessage cfg e msg st =
     (case msg of
        None \<Rightarrow> ([], st)
      | Some m \<Rightarrow>
          (case m_chat m of
             None \<Rightarrow> ([], st)
           | Some c \<Rightarrow>
               if chat_type c \<noteq> js ''private'' then ([], st)
               else
                 (let chatId = chat_id c;
                      fromId = from_id (m_from m)
                  in case rateLimit (dateNow e) fromId (lastRequestAt st) of
                       (False, lra) \<Rightarrow> ([SendMessage chatId SlowDown], st)
                     | (True, lra) \<Rightarrow>
                         (let st1 = st\<lparr>lastRequestAt := lra\<rparr>
                          in case (m_document m, isAdmin cfg fromId) of
                               (Some d, True) \<Rightarrow> handleUpload e chatId d (m_caption m) st1
                             | _ \<Rightarrow>
                                 (case (m_reply_to_message m, waitingForMeta st1 chatId,
                                        isAdmin cfg fromId, truthy (m_text m)) of
                                    (True, Some s, True, True) \<Rightarrow>
                                      handleMetaReply e chatId s (orEmpty (m_text m)) st1
                                  | _ \<Rightarrow>
                                      if truthy (m_text m) \<and> hd (orEmpty (m_text m)) = 47
                                      then ([], st1)
                                      else if truthy (m_text m)
                                      then handleQuery cfg e chatId (m_from m) (orEmpty (m_text m)) st1
                                      else ([], st1))))))"

subsection \<open>The /add listener\<close>

text \<open>
  A character that \<^verbatim>\<open>.\<close> does not match in a regular expression without the
  \<^verbatim>\<open>s\<close> flag.
\<close>

definition isLineTerminator :: "nat \<Rightarrow> bool" where
  "isLineTerminator c \<longleftrightarrow> c = 0x0A \<or> c = 0x0D \<or> c = 0x2028 \<or> c = 0x2029"

text \<open>
  \<^verbatim>\<open>match[1]\<close> of \<^verbatim>\<open>/\/add (.+)/.exec(text)\<close>: at the leftmost place where
  \<^verbatim>\<open>/add \<close> is followed by a character that is no line terminator, the longest run of
  such characters; \<open>None\<close> when the pattern does not match.
\<close>

fun addMatch :: "jsstring \<Rightarrow> jsstring option" where
  "addMatch [] = None"
| "addMatch (c # cs) =
     (if take 5 (c # cs) = js ''/add '' \<and>
         takeWhile (\<lambda>x. \<not> isLineTerminator x) (drop 5 (c # cs)) \<noteq> []
      then Some (takeWhile (\<lambda>x. \<not> isLineTerminator x) (drop 5 (c # cs)))
      else addMatch cs)"

text \<open>
  \<^verbatim>\<open>bot.onText(/\/add (.+)/, ...)\<close> (index.js, lines 533-552). The library
  node-telegram-bot-api gives a text message to the listeners of \<^verbatim>\<open>message\<close> and to
  every \<^verbatim>\<open>onText\<close> listener whose pattern matches the text; this listener does not
  call \<^verbatim>\<open>rateLimit\<close>. Its calls of \<^verbatim>\<open>bot.sendMessage\<close> are not awaited.
\<close>

definition onAdd :: "config \<Rightarrow> env \<Rightarrow> tg_message \<Rightarrow> state \<Rightarrow> effect list \<times> state" where
  "onAdd cfg e m st =
     (case addMatch (orEmpty (m_text m)) of
        None \<Rightarrow> ([], st)
      | Some match1 \<Rightarrow>
          (case m_chat m of
             None \<Rightarrow> ([], st)
           | Some c \<Rightarrow>
               (let chatId = chat_id c
                in if \<not> isAdmin cfg (from_id (m_from m))
                   then ([SendMessage chatId OnlyAdminAdd], st)
                   else
                     (let raw = trim match1;
                          parts = map trim (split 124 raw);
                          id' = orEmpty (cell parts 0);
                          title = orEmpty (cell parts 1);
                          author = orEmpty (cell parts 2);
                          file_id = orEmpty (cell parts 3)
                      in if title = [] \<or> file_id = []
                         then ([SendMessage chatId AddUsage], st)
                         else
                           (case findByFileId (books st) file_id of
                              Some b \<Rightarrow> ([SendMessage chatId FileIdExists], st)
                            | None \<Rightarrow>
                                (case appendRowToSheet e id' title author file_id st of
                                   (fx1, Some err, st1) \<Rightarrow>
                                     (fx1 @ [SendMessage chatId (AddFailed err)], st1)
                                 | (fx1, None, st1) \<Rightarrow>
                                     (case reload e st1 of
                                        (fx2, Some err, st2) \<Rightarrow>
                                          (fx1 @ fx2 @ [SendMessage chatId (AddFailed err)], st2)
                                      | (fx2, None, st2) \<Rightarrow>
                                          (fx1 @ fx2 @ [SendMessage chatId (SavedToSheet title)],
                                           st2))))))))"

subsection \<open>The matcher\<close>



subsection \<open>Derived notions\<close>

text \<open>The state once the rate limiter has recorded the event of the sender.\<close>

definition admitted :: "env \<Rightarrow> tg_message \<Rightarrow> state \<Rightarrow> state" where
  "admitted e m st =
     st\<lparr>lastRequestAt := (lastRequestAt st)(from_id (m_from m) \<mapsto> dateNow e)\<rparr>"

text \<open>The generation that a load builds from the rows of the range.\<close>

definition catalogOf :: "jsstring list list \<Rightarrow> book list" where
  "catalogOf rows = map rowRecord (filter rowKept (drop 1 rows))"

text \<open>
  The administrators to whom a run of the handler attempted a delivery, in the order of
  the attempts, and those for whom it logged a failed delivery.
\<close>

fun notifiedAdmins :: "effect list \<Rightarrow> jsstring list" where
  "notifiedAdmins [] = []"
| "notifiedAdmins (NotifyAdmin adminId n # fx) = adminId # notifiedAdmins fx"
| "notifiedAdmins (x # fx) = notifiedAdmins fx"

fun loggedFailures :: "effect list \<Rightarrow> jsstring list" where
  "loggedFailures [] = []"
| "loggedFailures (Log (NotifyAdminFailed adminId err) # fx) = adminId # loggedFailures fx"
| "loggedFailures (x # fx) = loggedFailures fx"

section \<open>Sample data\<close>

text \<open>The state at start-up, before the first load.\<close>

definition emptyState :: state where
  "emptyState = \<lparr>books = [], fuse = [], waitingForMeta = Map.empty, lastRequestAt = Map.empty,
                  requests = [], userStats = Map.empty, sheet = []\<rparr>"

text \<open>
  Two administrators; in the examples a search that returns the books whose title equals
  the query stands for the Fuse index.
\<close>

definition sampleConfig :: config where
  "sampleConfig =
     \<lparr>ADMIN_IDS = [js ''1001'', js ''1002''],
      fuse_search = (\<lambda>bs q. filter (\<lambda>b. b_title b = q) bs)\<rparr>"

text \<open>An event at time \<open>t\<close> during which every call on a collaborator resolves.\<close>

definition quietEnv :: "int \<Rightarrow> env" where
  "quietEnv t =
     \<lparr>dateNow = t, reqNow = t + 1, reqDate = t + 2, appendError = None, fetchError = None,
      saveDBError = None, userMessageError = None, sendDocumentError = None,
      apologyError = None, adminError = (\<lambda>k. None)\<rparr>"

definition librarian :: tg_user where
  "librarian = \<lparr>from_id = js ''1001'', username = Some (js ''lib''), first_name = None,
                 last_name = None\<rparr>"

definition reader :: tg_user where
  "reader = \<lparr>from_id = js ''77'', username = None, first_name = Some (js ''Ada''),
              last_name = None\<rparr>"

text \<open>A PDF sent by the librarian in a private chat, with the given caption.\<close>

definition uploadMsg :: "jsstring option \<Rightarrow> tg_message" where
  "uploadMsg cap =
     \<lparr>m_chat = Some \<lparr>chat_type = js ''private'', chat_id = 1001\<rparr>, m_from = librarian,
      m_document = Some \<lparr>doc_file_id = js ''BQACAgQAAx'', doc_mime_type = Some (js ''application/pdf'')\<rparr>,
      m_caption = cap, m_text = None, m_reply_to_message = False\<rparr>"

text \<open>A text message in a private chat; \<open>isReply\<close> says whether it replies to a message.\<close>

definition textMsg :: "tg_user \<Rightarrow> int \<Rightarrow> bool \<Rightarrow> jsstring \<Rightarrow> tg_message" where
  "textMsg u chatId isReply txt =
     \<lparr>m_chat = Some \<lparr>chat_type = js ''private'', chat_id = chatId\<rparr>, m_from = u,
      m_document = None, m_caption = None, m_text = Some txt, m_reply_to_message = isReply\<rparr>"

text \<open>
  One book is loaded, and the librarian has sent the file of that book again without a
  caption: a session waits in the conversation 1001.
\<close>

definition sampleState :: state where
  "sampleState =
     \<lparr>books = [\<lparr>b_id = js ''001'', b_title = js ''Old Title'', b_author = js ''Someone'',
                 b_file_id = js ''BQACAgQAAx''\<rparr>],
      fuse = [\<lparr>b_id = js ''001'', b_title = js ''Old Title'', b_author = js ''Someone'',
                b_file_id = js ''BQACAgQAAx''\<rparr>],
      waitingForMeta = [1001 \<mapsto> \<lparr>s_file_id = js ''BQACAgQAAx'', s_mimeType = js ''application/pdf''\<rparr>],
      lastRequestAt = [js ''1001'' \<mapsto> 1700000000000],
      requests = [], userStats = Map.empty,
      sheet = [[js ''id'', js ''title'', js ''author'', js ''file_id''],
               [js ''001'', js ''Old Title'', js ''Someone'', js ''BQACAgQAAx'']]\<rparr>"



text \<open>
  Two books are loaded and a session waits in the conversation 1001 for the file of the
  second book.
\<close>

definition twoBookState :: state where
  "twoBookState =
     \<lparr>books = [\<lparr>b_id = js ''001'', b_title = js ''Old Title'', b_author = js ''Someone'',
                 b_file_id = js ''AAA''\<rparr>,
                \<lparr>b_id = js ''002'', b_title = js ''Second Title'', b_author = js ''Other'',
                 b_file_id = js ''BQACAgQAAx''\<rparr>],
      fuse = [\<lparr>b_id = js ''001'', b_title = js ''Old Title'', b_author = js ''Someone'',
                b_file_id = js ''AAA''\<rparr>,
               \<lparr>b_id = js ''002'', b_title = js ''Second Title'', b_author = js ''Other'',
                b_file_id = js ''BQACAgQAAx''\<rparr>],
      waitingForMeta = [1001 \<mapsto> \<lparr>s_file_id = js ''BQACAgQAAx'', s_mimeType = js ''application/pdf''\<rparr>],
      lastRequestAt = [js ''1001'' \<mapsto> 1700000000000],
      requests = [], userStats = Map.empty,
      sheet = [[js ''id'', js ''title'', js ''author'', js ''file_id''],
               [js ''001'', js ''Old Title'', js ''Someone'', js ''AAA''],
               [js ''002'', js ''Second Title'', js ''Other'', js ''BQACAgQAAx'']]\<rparr>"

text \<open>
  One book is loaded and nobody has written yet: \<open>sampleState\<close> before the librarian sent
  the file without a caption.
\<close>

definition loadedState :: state where
  "loadedState = sampleState\<lparr>waitingForMeta := Map.empty, lastRequestAt := Map.empty\<rparr>"

section \<open>Properties of the string helpers\<close>

lemma trim_decompose:
  "\<exists>pre suf. s = pre @ trim s @ suf \<and> list_all isWhiteSpace pre \<and> list_all isWhiteSpace suf"
proof -
  let ?a = "takeWhile isWhiteSpace s"
  let ?b = "dropWhile isWhiteSpace s"
  let ?c = "takeWhile isWhiteSpace (rev ?b)"
  have "rev ?b = ?c @ dropWhile isWhiteSpace (rev ?b)"
    by simp
  then have "?b = rev (dropWhile isWhiteSpace (rev ?b)) @ rev ?c"
    by (metis rev_append rev_rev_ident)
  then have "s = ?a @ trim s @ rev ?c"
    by (metis takeWhile_dropWhile_id trim_def)
  moreover have "list_all isWhiteSpace ?a"
    by (simp add: list_all_iff) (meson set_takeWhileD)
  moreover have "list_all isWhiteSpace (rev ?c)"
    by (simp add: list_all_iff) (meson set_takeWhileD)
  ultimately show ?thesis
    by blast
qed

lemma trim_hd: "trim s \<noteq> [] \<Longrightarrow> \<not> isWhiteSpace (hd (trim s))"
proof -
  assume ne: "trim s \<noteq> []"
  let ?b = "dropWhile isWhiteSpace s"
  have b: "?b \<noteq> []"
  proof
    assume e: "?b = []"
    have "trim s = rev (dropWhile isWhiteSpace (rev ?b))"
      by (simp only: trim_def)
    also have "\<dots> = []"
      unfolding e by simp
    finally show False
      using ne by simp
  qed
  then have nb: "\<not> isWhiteSpace (hd ?b)"
    by (rule hd_dropWhile)
  have "rev ?b = takeWhile isWhiteSpace (rev ?b) @ dropWhile isWhiteSpace (rev ?b)"
    by simp
  then have "?b = trim s @ rev (takeWhile isWhiteSpace (rev ?b))"
    by (metis rev_append rev_rev_ident trim_def)
  then have "hd ?b = hd (trim s)"
    using ne by (metis hd_append2)
  with nb show ?thesis
    by simp
qed

lemma trim_last: "trim s \<noteq> [] \<Longrightarrow> \<not> isWhiteSpace (last (trim s))"
proof -
  assume ne: "trim s \<noteq> []"
  let ?r = "dropWhile isWhiteSpace (rev (dropWhile isWhiteSpace s))"
  have r: "?r \<noteq> []"
    using ne by (simp add: trim_def)
  then have "\<not> isWhiteSpace (hd ?r)"
    by (rule hd_dropWhile)
  moreover have "last (trim s) = hd ?r"
    using r by (simp add: trim_def last_rev)
  ultimately show ?thesis
    by simp
qed

lemma trim_id: "s = [] \<or> (\<not> isWhiteSpace (hd s) \<and> \<not> isWhiteSpace (last s)) \<Longrightarrow> trim s = s"
proof (cases s)
  case Nil
  then show ?thesis by (simp add: trim_def)
next
  case (Cons c cs)
  assume "s = [] \<or> (\<not> isWhiteSpace (hd s) \<and> \<not> isWhiteSpace (last s))"
  with Cons have h: "\<not> isWhiteSpace (hd s)" and l: "\<not> isWhiteSpace (last s)"
    by auto
  from h Cons have d: "dropWhile isWhiteSpace s = s"
    by simp
  obtain a as where r: "rev s = a # as"
    using Cons by (cases "rev s") auto
  have "hd (rev s) = last s"
    by (simp add: hd_rev)
  with r l have "\<not> isWhiteSpace a"
    by simp
  with r have "dropWhile isWhiteSpace (rev s) = rev s"
    by simp
  with d show ?thesis
    by (simp add: trim_def)
qed

lemma trim_trim: "trim (trim s) = trim s"
  using trim_hd [of s] trim_last [of s] trim_id [of "trim s"] by blast

lemma set_trim: "set (trim s) \<subseteq> set s"
  unfolding trim_def by (metis set_dropWhileD set_rev subsetI)

lemma stripControl_id: "list_all (\<lambda>c. \<not> isControl c) s \<Longrightarrow> stripControl s = s"
  by (simp add: stripControl_def list_all_iff)

lemma safeText_clean: "list_all (\<lambda>c. \<not> isControl c) (safeText v)"
proof (cases v)
  case None
  then show ?thesis by (simp add: safeText_def)
next
  case (Some s)
  have "set (trim (stripControl s)) \<subseteq> set (stripControl s)"
    by (rule set_trim)
  then show ?thesis
    using Some by (auto simp: safeText_def list_all_iff stripControl_def)
qed

lemma clean_trim:
  "list_all (\<lambda>c. \<not> isControl c) s \<Longrightarrow> list_all (\<lambda>c. \<not> isControl c) (trim s)"
  using set_trim [of s] by (auto simp: list_all_iff)

lemma safeText_id: "list_all (\<lambda>c. \<not> isControl c) s \<Longrightarrow> safeText (Some (trim s)) = trim s"
  by (simp add: safeText_def stripControl_id clean_trim trim_trim)

lemma safeText_safeText: "safeText (Some (safeText v)) = safeText v"
proof (cases v)
  case None
  then show ?thesis by (simp add: safeText_def stripControl_def trim_def)
next
  case (Some s)
  have "list_all (\<lambda>c. \<not> isControl c) (stripControl s)"
    by (simp add: stripControl_def list_all_iff)
  then show ?thesis
    using Some safeText_id [of "stripControl s"] by (simp add: safeText_def)
qed

lemma safeFileId_safeFileId: "safeFileId (Some (safeFileId v)) = safeFileId v"
proof (cases v)
  case None
  then show ?thesis by (simp add: safeFileId_def trim_def)
next
  case (Some s)
  then show ?thesis by (simp add: safeFileId_def trim_trim)
qed

section \<open>Loading the catalog\<close>

lemma loadLoop_step:
  "i < length rows \<Longrightarrow>
     loadLoop rows i parsed =
       loadLoop rows (i + 1) (if rowKept (rows ! i) then parsed @ [rowRecord (rows ! i)] else parsed)"
  by (subst loadLoop.simps) (simp add: rowKept_def rowRecord_def Let_def)

lemma loadLoop_eq:
  "loadLoop rows i parsed = parsed @ map rowRecord (filter rowKept (drop i rows))"
proof (induction "length rows - i" arbitrary: i parsed)
  case 0
  then show ?case
    by (simp add: loadLoop.simps [of rows i parsed])
next
  case (Suc n)
  then have lt: "i < length rows" and n: "n = length rows - (i + 1)"
    by auto
  have d: "drop i rows = rows ! i # drop (i + 1) rows"
    using lt by (simp add: Cons_nth_drop_Suc)
  show ?case
    using loadLoop_step [OF lt, of parsed] Suc.hyps(1) [OF n] d by simp
qed

lemma loadLoop_rows: "loadLoop rows 1 [] = map rowRecord (filter rowKept (drop 1 rows))"
  by (simp add: loadLoop_eq)

section \<open>The rate limiter\<close>

lemma rateLimit_grows:
  "m u = Some l \<Longrightarrow> \<exists>l'. snd (rateLimit now v m) u = Some l' \<and> l \<le> l'"
  by (auto simp: rateLimit_def Let_def RATE_WINDOW_MS_def)

lemma rateLimitRun_after:
  "m u = Some l \<Longrightarrow> j < length calls \<Longrightarrow> fst (calls ! j) = u \<Longrightarrow> rateLimitRun m calls ! j
     \<Longrightarrow> l + RATE_WINDOW_MS \<le> snd (calls ! j)"
proof (induction calls arbitrary: m l j)
  case Nil
  then show ?case by simp
next
  case (Cons c cs)
  show ?case
  proof (cases j)
    case 0
    with Cons.prems show ?thesis
      by (auto simp: rateLimit_def Let_def split: if_splits)
  next
    case (Suc k)
    obtain l' where l': "snd (rateLimit (snd c) (fst c) m) u = Some l'" "l \<le> l'"
      using rateLimit_grows [of m u l "snd c" "fst c"] Cons.prems(1) by blast
    have "l' + RATE_WINDOW_MS \<le> snd (cs ! k)"
      using Cons.IH [of "snd (rateLimit (snd c) (fst c) m)" l' k] l'(1) Cons.prems Suc by simp
    with l'(2) Suc show ?thesis
      by simp
  qed
qed

lemma rateLimitRun_apart:
  "i < j \<Longrightarrow> j < length calls \<Longrightarrow> fst (calls ! i) = fst (calls ! j)
     \<Longrightarrow> rateLimitRun m calls ! i \<Longrightarrow> rateLimitRun m calls ! j
     \<Longrightarrow> RATE_WINDOW_MS \<le> snd (calls ! j) - snd (calls ! i)"
proof (induction calls arbitrary: m i j)
  case Nil
  then show ?case by simp
next
  case (Cons c cs)
  obtain k where j: "j = Suc k"
    using Cons.prems(1) by (cases j) auto
  show ?case
  proof (cases i)
    case 0
    with Cons.prems have "snd (rateLimit (snd c) (fst c) m) (fst c) = Some (snd c)"
      by (auto simp: rateLimit_def Let_def split: if_splits)
    with rateLimitRun_after [of "snd (rateLimit (snd c) (fst c) m)" "fst c" "snd c" k cs]
      Cons.prems 0 j
    show ?thesis
      by simp
  next
    case (Suc i')
    with Cons.IH [of i' k] Cons.prems j show ?thesis
      by simp
  qed
qed

section \<open>Steps of the handler\<close>

lemma reload_fails:
  "fetchError e = Some err \<Longrightarrow> reload e st = ([GetRows, Log (LoadSheetError err)], Some err, st)"
  by (simp add: reload_def fetchRows_def loadSheet_def)

lemma reload_ok:
  "fetchError e = None \<Longrightarrow>
     reload e st =
       ([GetRows], None,
        st\<lparr>books := map rowRecord (filter rowKept (drop 1 (sheet st))),
           fuse := map rowRecord (filter rowKept (drop 1 (sheet st)))\<rparr>)"
  by (simp add: reload_def fetchRows_def loadSheet_def loadLoop_eq Let_def)

lemma appendRowToSheet_ok:
  "appendError e = None \<Longrightarrow>
     appendRowToSheet e i t a f st =
       ([AppendRow [safeText (Some i), safeText (Some t), safeText (Some a), safeFileId (Some f)]],
        None,
        st\<lparr>sheet := sheet st @ [[safeText (Some i), safeText (Some t), safeText (Some a),
                                  safeFileId (Some f)]]\<rparr>)"
  by (simp add: appendRowToSheet_def Let_def)

lemma appendRowToSheet_fails:
  "appendError e = Some err \<Longrightarrow>
     appendRowToSheet e i t a f st =
       ([AppendRow [safeText (Some i), safeText (Some t), safeText (Some a), safeFileId (Some f)],
         Log (AppendRowError err)], Some err, st)"
  by (simp add: appendRowToSheet_def Let_def)

lemma handleUpload_generation:
  "fetchError e = Some err \<Longrightarrow>
     books (snd (handleUpload e chatId d cap st)) = books st \<and>
     fuse (snd (handleUpload e chatId d cap st)) = fuse st"
  by (cases "appendError e")
     (simp_all add: handleUpload_def Let_def appendRowToSheet_ok appendRowToSheet_fails reload_fails
        split: prod.splits option.splits)

lemma handleMetaReply_generation:
  "fetchError e = Some err \<Longrightarrow>
     books (snd (handleMetaReply e chatId s txt st)) = books st \<and>
     fuse (snd (handleMetaReply e chatId s txt st)) = fuse st"
  by (cases "appendError e")
     (simp_all add: handleMetaReply_def Let_def appendRowToSheet_ok appendRowToSheet_fails reload_fails
        split: prod.splits option.splits)

lemma handleQuery_generation:
  "books (snd (handleQuery cfg e chatId u txt st)) = books st \<and>
   fuse (snd (handleQuery cfg e chatId u txt st)) = fuse st"
  by (simp add: handleQuery_def Let_def split: list.splits option.splits)

lemma onMessage_generation:
  "fetchError e = Some err \<Longrightarrow>
     books (snd (onMessage cfg e msg st)) = books st \<and>
     fuse (snd (onMessage cfg e msg st)) = fuse st"
  by (simp add: onMessage_def Let_def handleUpload_generation handleMetaReply_generation
        handleQuery_generation split: option.splits prod.splits bool.splits)

lemma rateLimit_True:
  "fst (rateLimit now u m) \<Longrightarrow> rateLimit now u m = (True, m(u \<mapsto> now))"
  by (simp add: rateLimit_def Let_def split: if_splits)

lemma rateLimit_False:
  "\<not> fst (rateLimit now u m) \<Longrightarrow> rateLimit now u m = (False, m)"
  by (simp add: rateLimit_def Let_def split: if_splits)

lemma onMessage_rejected:
  assumes "m_chat m = Some c" "chat_type c = js ''private''"
    "\<not> fst (rateLimit (dateNow e) (from_id (m_from m)) (lastRequestAt st))"
  shows "onMessage cfg e (Some m) st = ([SendMessage (chat_id c) SlowDown], st)"
  using assms(1,2) rateLimit_False [OF assms(3)] by (simp add: onMessage_def Let_def)

lemma onMessage_upload:
  assumes "m_chat m = Some c" "chat_type c = js ''private''"
    "fst (rateLimit (dateNow e) (from_id (m_from m)) (lastRequestAt st))"
    "m_document m = Some d" "isAdmin cfg (from_id (m_from m))"
  shows "onMessage cfg e (Some m) st = handleUpload e (chat_id c) d (m_caption m) (admitted e m st)"
  using assms(1,2,4,5) rateLimit_True [OF assms(3)]
  by (simp add: onMessage_def Let_def admitted_def)

lemma onMessage_metaReply:
  assumes "m_chat m = Some c" "chat_type c = js ''private''"
    "fst (rateLimit (dateNow e) (from_id (m_from m)) (lastRequestAt st))"
    "m_document m = None" "m_reply_to_message m" "waitingForMeta st (chat_id c) = Some s"
    "isAdmin cfg (from_id (m_from m))" "truthy (m_text m)"
  shows "onMessage cfg e (Some m) st =
           handleMetaReply e (chat_id c) s (orEmpty (m_text m)) (admitted e m st)"
  using assms(1,2,4-8) rateLimit_True [OF assms(3)]
  by (simp add: onMessage_def Let_def admitted_def)

lemma onMessage_text:
  assumes "m_chat m = Some c" "chat_type c = js ''private''"
    "fst (rateLimit (dateNow e) (from_id (m_from m)) (lastRequestAt st))"
    "m_document m = None \<or> \<not> isAdmin cfg (from_id (m_from m))"
    "\<not> m_reply_to_message m \<or> waitingForMeta st (chat_id c) = None
       \<or> \<not> isAdmin cfg (from_id (m_from m))"
    "truthy (m_text m)" "hd (orEmpty (m_text m)) \<noteq> 47"
  shows "onMessage cfg e (Some m) st =
           handleQuery cfg e (chat_id c) (m_from m) (orEmpty (m_text m)) (admitted e m st)"
  using assms(1,2,4-7) rateLimit_True [OF assms(3)]
  by (auto simp add: onMessage_def Let_def admitted_def split: option.splits bool.splits)

lemma onMessage_reply_marker:
  assumes "m_chat m = Some c" "waitingForMeta st (chat_id c) = None"
  shows "onMessage cfg e (Some m) st = onMessage cfg e (Some (m\<lparr>m_reply_to_message := False\<rparr>)) st"
  using assms
  by (simp add: onMessage_def Let_def split: option.splits bool.splits prod.splits)

section \<open>Splitting a caption\<close>

lemma split_not_Nil: "split sep s \<noteq> []"
  by (induction s) (auto split: list.splits)

lemma split_no_sep: "sep \<notin> set a \<Longrightarrow> split sep a = [a]"
  by (induction a) auto

lemma split_append: "sep \<notin> set a \<Longrightarrow> split sep (a @ sep # rest) = a # split sep rest"
  by (induction a) auto

lemma split_parts: "p \<in> set (split sep s) \<Longrightarrow> set p \<subseteq> set s"
proof (induction s arbitrary: p)
  case Nil
  then show ?case by simp
next
  case (Cons c cs)
  show ?case
  proof (cases "c = sep")
    case True
    with Cons show ?thesis by auto
  next
    case False
    obtain q qs where q: "split sep cs = q # qs"
      using split_not_Nil [of sep cs] by (cases "split sep cs") auto
    with False Cons.prems have "p = c # q \<or> p \<in> set qs"
      by simp
    then show ?thesis
    proof
      assume "p = c # q"
      moreover have "set q \<subseteq> set cs"
        using Cons.IH [of q] q by simp
      ultimately show ?thesis by auto
    next
      assume "p \<in> set qs"
      then have "set p \<subseteq> set cs"
        using Cons.IH [of p] q by simp
      then show ?thesis by auto
    qed
  qed
qed

lemma cell_Cons_0: "cell (x # xs) 0 = Some x"
  by (simp add: cell_def)

lemma cell_Cons_Suc: "cell (x # xs) (Suc n) = cell xs n"
  by (simp add: cell_def)

lemma cell_Nil: "cell [] n = None"
  by (simp add: cell_def)

lemma cell_1: "cell (x # xs) 1 = cell xs 0"
  using cell_Cons_Suc [of x xs 0] by simp

lemma cell_2: "cell (x # y # xs) 2 = cell xs 0"
  by (simp add: cell_def)

lemma cell_map_trim:
  "orEmpty (cell (map trim ps) k) = [] \<or> (\<exists>p \<in> set ps. orEmpty (cell (map trim ps) k) = trim p)"
  by (auto simp: cell_def orEmpty_def)

lemma metaParts_one: "124 \<notin> set a \<Longrightarrow> metaParts a = (trim a, [], [])"
  by (simp add: metaParts_def split_no_sep cell_def orEmpty_def Let_def)

lemma metaParts_two:
  "124 \<notin> set a \<Longrightarrow> 124 \<notin> set b \<Longrightarrow> metaParts (a @ 124 # b) = (trim a, trim b, [])"
  by (simp add: metaParts_def split_no_sep split_append cell_def orEmpty_def Let_def)

lemma metaParts_three:
  "124 \<notin> set a \<Longrightarrow> 124 \<notin> set b \<Longrightarrow> 124 \<notin> set c \<Longrightarrow>
     metaParts (a @ 124 # b @ 124 # c) = (trim a, trim b, trim c)"
  by (simp add: metaParts_def split_no_sep split_append cell_def orEmpty_def Let_def)

lemma metaParts_more:
  "124 \<notin> set a \<Longrightarrow> 124 \<notin> set b \<Longrightarrow> 124 \<notin> set c \<Longrightarrow>
     metaParts (a @ 124 # b @ 124 # c @ 124 # extra) = (trim a, trim b, trim c)"
  by (simp add: metaParts_def split_no_sep split_append cell_def orEmpty_def Let_def)

lemma safeText_Nil: "safeText (Some []) = []"
  by (simp add: safeText_def stripControl_def trim_def)

lemma safeText_part:
  assumes "list_all (\<lambda>c. \<not> isControl c) s"
  shows "safeText (Some (orEmpty (cell (map trim (split sep s)) k))) =
           orEmpty (cell (map trim (split sep s)) k)"
proof -
  from cell_map_trim [of "split sep s" k]
  show ?thesis
  proof
    assume "orEmpty (cell (map trim (split sep s)) k) = []"
    then show ?thesis by (simp add: safeText_Nil)
  next
    assume "\<exists>p \<in> set (split sep s). orEmpty (cell (map trim (split sep s)) k) = trim p"
    then obtain p where p: "p \<in> set (split sep s)"
      and eq: "orEmpty (cell (map trim (split sep s)) k) = trim p"
      by blast
    have "list_all (\<lambda>c. \<not> isControl c) p"
      using split_parts [OF p] assms by (auto simp: list_all_iff)
    then show ?thesis
      using eq by (simp add: safeText_id)
  qed
qed

lemma metaParts_clean:
  assumes "list_all (\<lambda>c. \<not> isControl c) s" "metaParts s = (i, t, a)"
  shows "safeText (Some i) = i \<and> safeText (Some t) = t \<and> safeText (Some a) = a"
  using assms(2) safeText_part [OF assms(1), of 124 0] safeText_part [OF assms(1), of 124 1]
    safeText_part [OF assms(1), of 124 2]
  by (simp add: metaParts_def Let_def)

lemma metaParts_safeText:
  "metaParts (safeText v) = (i, t, a) \<Longrightarrow>
     safeText (Some i) = i \<and> safeText (Some t) = t \<and> safeText (Some a) = a"
  using metaParts_clean [OF safeText_clean] by blast

section \<open>Branches of the handler\<close>

lemma handleUpload_lastRequestAt:
  "lastRequestAt (snd (handleUpload e chatId d cap st)) = lastRequestAt st"
  by (cases "appendError e"; cases "fetchError e")
     (simp_all add: handleUpload_def Let_def appendRowToSheet_ok appendRowToSheet_fails
        reload_fails reload_ok split: prod.splits option.splits)

lemma handleMetaReply_lastRequestAt:
  "lastRequestAt (snd (handleMetaReply e chatId s txt st)) = lastRequestAt st"
  by (cases "appendError e"; cases "fetchError e")
     (simp_all add: handleMetaReply_def Let_def appendRowToSheet_ok appendRowToSheet_fails
        reload_fails reload_ok split: prod.splits option.splits)

lemma handleQuery_lastRequestAt:
  "lastRequestAt (snd (handleQuery cfg e chatId u txt st)) = lastRequestAt st"
  by (simp add: handleQuery_def Let_def split: list.splits option.splits)

lemma onMessage_lastRequestAt:
  assumes "m_chat m = Some c" "chat_type c = js ''private''"
  shows "lastRequestAt (snd (onMessage cfg e (Some m) st)) =
           snd (rateLimit (dateNow e) (from_id (m_from m)) (lastRequestAt st))"
proof (cases "fst (rateLimit (dateNow e) (from_id (m_from m)) (lastRequestAt st))")
  case False
  then show ?thesis
    using onMessage_rejected [OF assms False, of cfg] rateLimit_False [OF False] by simp
next
  case True
  with assms rateLimit_True [OF True] show ?thesis
    by (simp add: onMessage_def Let_def handleUpload_lastRequestAt handleMetaReply_lastRequestAt
          handleQuery_lastRequestAt split: option.splits prod.splits bool.splits)
qed

lemma handleMetaReply_append_fails:
  assumes "metaParts (safeText (Some txt)) = (i, t, a)" "t \<noteq> []" "s_file_id s \<noteq> []"
    "appendError e = Some err"
  shows "handleMetaReply e chatId s txt st =
           ([AppendRow [i, t, a, safeFileId (Some (s_file_id s))], Log (AppendRowError err),
             Log (ReplyFlowError err), SendMessage chatId (FailedSave err)], st)"
  using assms metaParts_safeText [OF assms(1)]
  by (simp add: handleMetaReply_def Let_def appendRowToSheet_fails)

lemma handleMetaReply_reload_fails:
  assumes "metaParts (safeText (Some txt)) = (i, t, a)" "t \<noteq> []" "s_file_id s \<noteq> []"
    "appendError e = None" "fetchError e = Some err"
  shows "handleMetaReply e chatId s txt st =
           ([AppendRow [i, t, a, safeFileId (Some (s_file_id s))], GetRows,
             Log (LoadSheetError err), Log (ReplyFlowError err),
             SendMessage chatId (FailedSave err)],
            st\<lparr>sheet := sheet st @ [[i, t, a, safeFileId (Some (s_file_id s))]],
               waitingForMeta := (waitingForMeta st)(chatId := None)\<rparr>)"
  using assms metaParts_safeText [OF assms(1)]
  by (simp add: handleMetaReply_def Let_def appendRowToSheet_ok reload_fails)

lemma handleMetaReply_saved:
  assumes "metaParts (safeText (Some txt)) = (i, t, a)" "t \<noteq> []" "s_file_id s \<noteq> []"
    "appendError e = None" "fetchError e = None"
  shows "handleMetaReply e chatId s txt st =
           ([AppendRow [i, t, a, safeFileId (Some (s_file_id s))], GetRows,
             SendMessage chatId (SavedToSheet t)],
            st\<lparr>sheet := sheet st @ [[i, t, a, safeFileId (Some (s_file_id s))]],
               waitingForMeta := (waitingForMeta st)(chatId := None),
               books := catalogOf (sheet st @ [[i, t, a, safeFileId (Some (s_file_id s))]]),
               fuse := catalogOf (sheet st @ [[i, t, a, safeFileId (Some (s_file_id s))]])\<rparr>)"
  using assms metaParts_safeText [OF assms(1)]
  by (simp add: handleMetaReply_def Let_def appendRowToSheet_ok reload_ok catalogOf_def)

lemma handleUpload_no_caption:
  assumes "isValidDocumentType (orEmpty (doc_mime_type d))" "safeText (Some (orEmpty cap)) = []"
  shows "handleUpload e chatId d cap st =
           ([SendMessage chatId (AskMetadata (orEmpty (doc_mime_type d)))],
            st\<lparr>waitingForMeta :=
                 (waitingForMeta st)(chatId \<mapsto>
                    \<lparr>s_file_id = safeFileId (Some (doc_file_id d)),
                     s_mimeType = orEmpty (doc_mime_type d)\<rparr>)\<rparr>)"
  using assms by (simp add: handleUpload_def Let_def)

lemma handleUpload_malformed:
  assumes "isValidDocumentType (orEmpty (doc_mime_type d))" "safeText (Some (orEmpty cap)) \<noteq> []"
    "fst (snd (metaParts (safeText (Some (orEmpty cap))))) = []"
  shows "handleUpload e chatId d cap st = ([SendMessage chatId CaptionFormat], st)"
proof -
  obtain i t a where p: "metaParts (safeText (Some (orEmpty cap))) = (i, t, a)"
    by (cases "metaParts (safeText (Some (orEmpty cap)))") auto
  with assms(3) have "t = []"
    by simp
  with assms(1,2) p show ?thesis
    by (simp add: handleUpload_def Let_def)
qed

lemma handleUpload_duplicate:
  assumes "isValidDocumentType (orEmpty (doc_mime_type d))" "safeText (Some (orEmpty cap)) \<noteq> []"
    "metaParts (safeText (Some (orEmpty cap))) = (i, t, a)" "t \<noteq> []"
    "safeFileId (Some (doc_file_id d)) \<noteq> []"
    "findByFileId (books st) (safeFileId (Some (doc_file_id d))) = Some b"
  shows "handleUpload e chatId d cap st = ([SendMessage chatId (AlreadyInLibrary (b_title b))], st)"
  using assms by (simp add: handleUpload_def Let_def)

lemma handleUpload_accepted:
  assumes "isValidDocumentType (orEmpty (doc_mime_type d))" "safeText (Some (orEmpty cap)) \<noteq> []"
    "metaParts (safeText (Some (orEmpty cap))) = (i, t, a)" "t \<noteq> []"
    "safeFileId (Some (doc_file_id d)) \<noteq> []"
    "findByFileId (books st) (safeFileId (Some (doc_file_id d))) = None"
  shows "hd (fst (handleUpload e chatId d cap st)) =
           AppendRow [i, t, a, safeFileId (Some (doc_file_id d))]"
  using assms metaParts_safeText [OF assms(3)]
  by (cases "appendError e"; cases "fetchError e")
     (simp_all add: handleUpload_def Let_def appendRowToSheet_ok appendRowToSheet_fails
        reload_ok reload_fails safeFileId_safeFileId)

lemma handleQuery_store:
  "sheet (snd (handleQuery cfg e chatId u txt st)) = sheet st \<and>
   waitingForMeta (snd (handleQuery cfg e chatId u txt st)) = waitingForMeta st"
  by (simp add: handleQuery_def Let_def split: list.splits option.splits)

lemma handleMetaReply_appends:
  assumes "metaParts (safeText (Some txt)) = (i, t, a)" "t \<noteq> []" "s_file_id s \<noteq> []"
    "appendError e = None"
  shows "sheet (snd (handleMetaReply e chatId s txt st)) =
           sheet st @ [[i, t, a, safeFileId (Some (s_file_id s))]]
       \<and> waitingForMeta (snd (handleMetaReply e chatId s txt st)) =
           (waitingForMeta st)(chatId := None)
       \<and> hd (fst (handleMetaReply e chatId s txt st)) =
           AppendRow [i, t, a, safeFileId (Some (s_file_id s))]"
proof (cases "fetchError e")
  case None
  then show ?thesis
    using handleMetaReply_saved [OF assms None, of chatId st] by simp
next
  case (Some err)
  then show ?thesis
    using handleMetaReply_reload_fails [OF assms Some, of chatId st] by simp
qed

lemma findByFileId_Some: "findByFileId bs f = Some b \<Longrightarrow> b \<in> set bs \<and> b_file_id b = f"
  by (auto simp: findByFileId_def find_Some_iff)

lemma findByFileId_first:
  "b0 \<in> set bs \<Longrightarrow> b_file_id b0 = f \<Longrightarrow>
     findByFileId bs f = Some (hd (filter (\<lambda>x. b_file_id x = f) bs))"
  by (induction bs) (auto simp: findByFileId_def)

lemma findByFileId_none:
  "list_all (\<lambda>x. b_file_id x \<noteq> f) bs \<Longrightarrow> findByFileId bs f = None"
  by (induction bs) (auto simp: findByFileId_def)

lemma catalogOf_append:
  assumes "rows \<noteq> []" "rowKept row"
  shows "catalogOf (rows @ [row]) = catalogOf rows @ [rowRecord row]"
proof -
  have "drop 1 (rows @ [row]) = drop 1 rows @ [row]"
    using assms(1) by (cases rows) auto
  with assms(2) show ?thesis
    by (simp add: catalogOf_def)
qed

lemma catalogOf_reference:
  assumes "b \<in> set (catalogOf rows)"
  shows "safeFileId (Some (b_file_id b)) = b_file_id b \<and> b_file_id b \<noteq> [] \<and> rows \<noteq> []"
proof -
  from assms obtain r where r: "b = rowRecord r" "rowKept r"
    by (auto simp: catalogOf_def)
  have "rows \<noteq> []"
    using assms by (auto simp: catalogOf_def)
  with r show ?thesis
    by (simp add: rowKept_def rowRecord_def safeFileId_safeFileId)
qed

lemma rowRecord_clean:
  assumes "safeText (Some i) = i" "safeText (Some t) = t" "safeText (Some a) = a"
    "safeFileId (Some f) = f"
  shows "rowRecord [i, t, a, f] = \<lparr>b_id = i, b_title = t, b_author = a, b_file_id = f\<rparr>"
  using assms by (simp add: rowRecord_def cell_def orEmpty_def)

lemma notifiedAdmins_notifyLoop: "notifiedAdmins (notifyLoop fails k admins n) = admins"
  by (induction admins arbitrary: k) (auto split: option.splits)

lemma loggedFailures_notifyLoop:
  "loggedFailures (notifyLoop fails k admins n) =
     map fst (filter (\<lambda>p. fails (snd p) \<noteq> None) (zip admins [k ..< k + length admins]))"
proof (induction admins arbitrary: k)
  case Nil
  then show ?case by simp
next
  case (Cons a as)
  have "[k ..< k + length (a # as)] = k # [Suc k ..< Suc k + length as]"
    by (subst upt_rec) simp
  with Cons [of "Suc k"] show ?case
    by (auto split: option.splits)
qed

lemma handleQuery_no_match:
  assumes "safeText (Some (trim txt)) = q" "q \<noteq> []" "fuse_search cfg (fuse st) q = []"
  shows "requests (snd (handleQuery cfg e chatId u txt st)) =
           requests st @
           [\<lparr>req_id = (reqNow e, from_id u), req_userId = from_id u,
             req_userName = trim (if orEmpty (username u) \<noteq> [] then orEmpty (username u)
                                  else orEmpty (first_name u) @ [32] @ orEmpty (last_name u)),
             req_query = q, req_createdAt = reqDate e\<rparr>]"
    and "saveDBError e = None \<Longrightarrow> userMessageError e = None \<Longrightarrow>
           fst (handleQuery cfg e chatId u txt st) =
             [SaveDB, SendMessage chatId (if isAdmin cfg (from_id u) then NoMatchAdmin q
                                          else NoMatchUser q)] @
             notifyLoop (adminError e) 0 (ADMIN_IDS cfg)
               \<lparr>n_userId = from_id u,
                n_userName = trim (if orEmpty (username u) \<noteq> [] then orEmpty (username u)
                                   else orEmpty (first_name u) @ [32] @ orEmpty (last_name u)),
                n_query = UserQuery q, n_time = None\<rparr>"
  using assms
  by (simp_all add: handleQuery_def Let_def notifyAdminsAboutRequest_def split: option.splits)

lemma handleUpload_reload_fails:
  assumes "isValidDocumentType (orEmpty (doc_mime_type d))" "safeText (Some (orEmpty cap)) \<noteq> []"
    "metaParts (safeText (Some (orEmpty cap))) = (i, t, a)" "t \<noteq> []"
    "safeFileId (Some (doc_file_id d)) \<noteq> []"
    "findByFileId (books st) (safeFileId (Some (doc_file_id d))) = None"
    "appendError e = None" "fetchError e = Some err"
  shows "handleUpload e chatId d cap st =
           ([AppendRow [i, t, a, safeFileId (Some (doc_file_id d))], GetRows,
             Log (LoadSheetError err), Log (AdminUploadError err),
             SendMessage chatId (FailedToSave t err)],
            st\<lparr>sheet := sheet st @ [[i, t, a, safeFileId (Some (doc_file_id d))]]\<rparr>)"
  using assms metaParts_safeText [OF assms(3)]
  by (simp add: handleUpload_def Let_def appendRowToSheet_ok reload_fails safeFileId_safeFileId)

section \<open>The matcher of the specification\<close>






section \<open>Evaluating the examples\<close>

lemmas sample_defs = sampleConfig_def quietEnv_def librarian_def reader_def uploadMsg_def
  textMsg_def emptyState_def

lemmas string_defs = js_def safeText_def safeFileId_def stripControl_def trim_def
  isWhiteSpace_def isControl_def orEmpty_def cell_def

lemma upload_step:
  "onMessage sampleConfig (quietEnv 1700000000000) (Some (uploadMsg None)) emptyState =
     ([SendMessage 1001 (AskMetadata (js ''application/pdf''))],
      emptyState
        \<lparr>waitingForMeta := [1001 \<mapsto> \<lparr>s_file_id = js ''BQACAgQAAx'', s_mimeType = js ''application/pdf''\<rparr>],
         lastRequestAt := [js ''1001'' \<mapsto> 1700000000000]\<rparr>)"
  by (simp add: onMessage_def handleUpload_def rateLimit_def RATE_WINDOW_MS_def isAdmin_def
        isValidDocumentType_def allowedTypes_def Let_def sample_defs string_defs)

lemmas sample_defs2 = sample_defs sampleState_def

lemmas handler_defs = rateLimit_def RATE_WINDOW_MS_def isAdmin_def isValidDocumentType_def
  allowedTypes_def truthy_def metaParts_def admitted_def findByFileId_def catalogOf_def
  rowKept_def rowRecord_def

section \<open>Claims\<close>

text \<open>
  C6. \<open>rateLimit\<close> admits at most one call per window of \<open>RATE_WINDOW_MS = 1000\<close>
  milliseconds and user: a call less than the window after the stored timestamp of the user
  (0 when none is stored) returns false and leaves the map as it is; a call at least the
  window after it returns true and stores the current time; in any sequence of calls, from
  any starting map, two calls of one user that both return true are at least the window
  apart.
\<close>

theorem rateLimit_one_per_window:
  "(now - (case m u of None \<Rightarrow> 0 | Some t \<Rightarrow> t) < RATE_WINDOW_MS \<longrightarrow> rateLimit now u m = (False, m))
   \<and> (RATE_WINDOW_MS \<le> now - (case m u of None \<Rightarrow> 0 | Some t \<Rightarrow> t)
        \<longrightarrow> rateLimit now u m = (True, m(u \<mapsto> now)))
   \<and> (i < j \<and> j < length calls \<and> fst (calls ! i) = fst (calls ! j)
        \<and> rateLimitRun m0 calls ! i \<and> rateLimitRun m0 calls ! j
        \<longrightarrow> RATE_WINDOW_MS \<le> snd (calls ! j) - snd (calls ! i))
   \<and> RATE_WINDOW_MS = 1000"
proof (intro conjI impI)
  assume "now - (case m u of None \<Rightarrow> 0 | Some t \<Rightarrow> t) < RATE_WINDOW_MS"
  then show "rateLimit now u m = (False, m)"
    by (simp add: rateLimit_def)
next
  assume "RATE_WINDOW_MS \<le> now - (case m u of None \<Rightarrow> 0 | Some t \<Rightarrow> t)"
  then show "rateLimit now u m = (True, m(u \<mapsto> now))"
    by (simp add: rateLimit_def)
next
  assume "i < j \<and> j < length calls \<and> fst (calls ! i) = fst (calls ! j)
        \<and> rateLimitRun m0 calls ! i \<and> rateLimitRun m0 calls ! j"
  then show "RATE_WINDOW_MS \<le> snd (calls ! j) - snd (calls ! i)"
    using rateLimitRun_apart [of i j calls m0] by blast
next
  show "RATE_WINDOW_MS = 1000"
    by (simp add: RATE_WINDOW_MS_def)
qed

theorem rateLimit_one_per_window_witness:
  "rateLimit 5400 (js ''42'') [js ''42'' \<mapsto> 5000] = (False, [js ''42'' \<mapsto> 5000])
   \<and> rateLimit 6000 (js ''42'') [js ''42'' \<mapsto> 5000] = (True, [js ''42'' \<mapsto> 6000])
   \<and> rateLimitRun Map.empty [(js ''42'', 5000), (js ''7'', 5200), (js ''42'', 5400), (js ''42'', 6000)]
        = [True, True, False, True]
   \<and> RATE_WINDOW_MS \<le> 6000 - 5000"
proof -
  let ?u = "js ''42''"
  let ?calls = "[(?u, 5000), (js ''7'', 5200), (?u, 5400), (?u, 6000 :: int)]"
  have run: "rateLimitRun Map.empty ?calls = [True, True, False, True]"
    by (simp add: rateLimit_def RATE_WINDOW_MS_def js_def)
  have "RATE_WINDOW_MS \<le> snd (?calls ! 3) - snd (?calls ! 0)"
    using rateLimit_one_per_window [of 0 "Map.empty" ?u 0 3 ?calls Map.empty] run by simp
  moreover have "rateLimit 5400 ?u [?u \<mapsto> 5000] = (False, [?u \<mapsto> 5000])"
    using rateLimit_one_per_window [of 5400 "[?u \<mapsto> 5000]" ?u]
    by (simp add: RATE_WINDOW_MS_def)
  moreover have "rateLimit 6000 ?u [?u \<mapsto> 5000] = (True, [?u \<mapsto> 6000])"
    using rateLimit_one_per_window [of 6000 "[?u \<mapsto> 5000]" ?u]
    by (simp add: RATE_WINDOW_MS_def)
  ultimately show ?thesis
    using run by simp
qed

text \<open>
  C1. The load skips the first row and keeps, in the order of the rows, exactly the rows
  whose cleaned title and reference are both non-empty; it fails on no row, and an empty
  range gives the empty generation. Id, title and author of a record are the cells with
  the control characters removed and the surrounding white space trimmed; the reference is
  the cell with only leading and trailing white space removed, its interior as it was.
\<close>

theorem loadSheet_keeps_valid_rows_in_order:
  "loadSheet (Inr (Some rows)) st =
     (Inr (length (filter rowKept (drop 1 rows))),
      st\<lparr>books := map rowRecord (filter rowKept (drop 1 rows)),
         fuse := map rowRecord (filter rowKept (drop 1 rows))\<rparr>)
   \<and> loadSheet (Inr None) st = (Inr 0, st\<lparr>books := [], fuse := []\<rparr>)
   \<and> (rowKept r \<longleftrightarrow> b_title (rowRecord r) \<noteq> [] \<and> b_file_id (rowRecord r) \<noteq> [])
   \<and> b_id (rowRecord r) = safeText (Some (orEmpty (cell r 0)))
   \<and> b_title (rowRecord r) = safeText (Some (orEmpty (cell r 1)))
   \<and> b_author (rowRecord r) = safeText (Some (orEmpty (cell r 2)))
   \<and> b_file_id (rowRecord r) = safeFileId (Some (orEmpty (cell r 3)))
   \<and> list_all (\<lambda>c. \<not> isControl c) (safeText (Some v))
   \<and> (\<exists>pre suf. filter (\<lambda>c. \<not> isControl c) v = pre @ safeText (Some v) @ suf
          \<and> list_all isWhiteSpace pre \<and> list_all isWhiteSpace suf)
   \<and> (safeText (Some v) \<noteq> []
        \<longrightarrow> \<not> isWhiteSpace (hd (safeText (Some v))) \<and> \<not> isWhiteSpace (last (safeText (Some v))))
   \<and> (\<exists>pre suf. v = pre @ safeFileId (Some v) @ suf
          \<and> list_all isWhiteSpace pre \<and> list_all isWhiteSpace suf)
   \<and> (safeFileId (Some v) \<noteq> []
        \<longrightarrow> \<not> isWhiteSpace (hd (safeFileId (Some v))) \<and> \<not> isWhiteSpace (last (safeFileId (Some v))))"
proof -
  have load: "loadSheet (Inr (Some rows)) st =
     (Inr (length (filter rowKept (drop 1 rows))),
      st\<lparr>books := map rowRecord (filter rowKept (drop 1 rows)),
         fuse := map rowRecord (filter rowKept (drop 1 rows))\<rparr>)"
    by (simp add: loadSheet_def loadLoop_eq Let_def)
  have none: "loadSheet (Inr None) st = (Inr 0, st\<lparr>books := [], fuse := []\<rparr>)"
    by (simp add: loadSheet_def loadLoop_eq Let_def)
  have kept: "rowKept r \<longleftrightarrow> b_title (rowRecord r) \<noteq> [] \<and> b_file_id (rowRecord r) \<noteq> []"
    by (simp add: rowKept_def)
  have fields: "b_id (rowRecord r) = safeText (Some (orEmpty (cell r 0)))"
    "b_title (rowRecord r) = safeText (Some (orEmpty (cell r 1)))"
    "b_author (rowRecord r) = safeText (Some (orEmpty (cell r 2)))"
    "b_file_id (rowRecord r) = safeFileId (Some (orEmpty (cell r 3)))"
    by (simp_all add: rowRecord_def)
  have clean: "list_all (\<lambda>c. \<not> isControl c) (safeText (Some v))"
    by (rule safeText_clean)
  have text_dec: "\<exists>pre suf. filter (\<lambda>c. \<not> isControl c) v = pre @ safeText (Some v) @ suf
          \<and> list_all isWhiteSpace pre \<and> list_all isWhiteSpace suf"
    using trim_decompose [of "stripControl v"] by (simp add: safeText_def stripControl_def)
  have text_ends: "safeText (Some v) \<noteq> []
        \<longrightarrow> \<not> isWhiteSpace (hd (safeText (Some v))) \<and> \<not> isWhiteSpace (last (safeText (Some v)))"
    using trim_hd [of "stripControl v"] trim_last [of "stripControl v"]
    by (simp add: safeText_def)
  have ref_dec: "\<exists>pre suf. v = pre @ safeFileId (Some v) @ suf
          \<and> list_all isWhiteSpace pre \<and> list_all isWhiteSpace suf"
    using trim_decompose [of v] by (simp add: safeFileId_def)
  have ref_ends: "safeFileId (Some v) \<noteq> []
        \<longrightarrow> \<not> isWhiteSpace (hd (safeFileId (Some v))) \<and> \<not> isWhiteSpace (last (safeFileId (Some v)))"
    using trim_hd [of v] trim_last [of v] by (simp add: safeFileId_def)
  from load none kept fields clean text_dec text_ends ref_dec ref_ends show ?thesis
    by blast
qed

theorem loadSheet_keeps_valid_rows_in_order_witness:
  "loadSheet
     (Inr (Some [[js ''id'', js ''title'', js ''author'', js ''file_id''],
                 [js '' 001 '', js ''Great'' @ [9] @ js ''Book'', js ''Jane'', js '' AbC dEf ''],
                 [js ''2'', js ''  '', js ''x'', js ''f''],
                 [js ''3'', js ''T''],
                 [[], js ''Second'', [], [66, 1, 120, 10]]])) emptyState =
     (Inr 2,
      emptyState
        \<lparr>books := [\<lparr>b_id = js ''001'', b_title = js ''GreatBook'', b_author = js ''Jane'',
                     b_file_id = js ''AbC dEf''\<rparr>,
                    \<lparr>b_id = [], b_title = js ''Second'', b_author = [], b_file_id = [66, 1, 120]\<rparr>],
         fuse := [\<lparr>b_id = js ''001'', b_title = js ''GreatBook'', b_author = js ''Jane'',
                    b_file_id = js ''AbC dEf''\<rparr>,
                   \<lparr>b_id = [], b_title = js ''Second'', b_author = [], b_file_id = [66, 1, 120]\<rparr>]\<rparr>)
   \<and> safeText (Some (js ''Great'' @ [9] @ js ''Book'')) \<noteq> []
   \<and> \<not> isWhiteSpace (hd (safeText (Some (js ''Great'' @ [9] @ js ''Book''))))
   \<and> safeFileId (Some [32, 66, 1, 120, 10]) = [66, 1, 120]"
  using loadSheet_keeps_valid_rows_in_order
    [of "[[js ''id'', js ''title'', js ''author'', js ''file_id''],
          [js '' 001 '', js ''Great'' @ [9] @ js ''Book'', js ''Jane'', js '' AbC dEf ''],
          [js ''2'', js ''  '', js ''x'', js ''f''],
          [js ''3'', js ''T''],
          [[], js ''Second'', [], [66, 1, 120, 10]]]"
        emptyState "[js ''3'', js ''T'']" "js ''Great'' @ [9] @ js ''Book''"]
  by (simp add: rowKept_def rowRecord_def safeText_def safeFileId_def stripControl_def trim_def
      isWhiteSpace_def isControl_def orEmpty_def cell_def js_def)



text \<open>
  C5. When the rows cannot be fetched, \<open>loadSheet\<close> fails with the error of the fetch and
  leaves the state as it was; it fails in no other case. A handler run during which the
  fetch fails ends with the books and the search collection it started with, and the
  caller of the reload reports the error: on the caption path the administrator reads the
  failure message, the row being appended already.
\<close>

theorem failed_fetch_keeps_generation:
  "loadSheet (Inl err) st = (Inl err, st)
   \<and> (fst (loadSheet resp st) = Inl err \<longrightarrow> resp = Inl err \<and> snd (loadSheet resp st) = st)
   \<and> (fetchError e = Some err \<longrightarrow>
        reload e st = ([GetRows, Log (LoadSheetError err)], Some err, st))
   \<and> (fetchError e = Some err \<longrightarrow>
        books (snd (onMessage cfg e msg st)) = books st
      \<and> fuse (snd (onMessage cfg e msg st)) = fuse st)
   \<and> (msg = Some m \<and> m_chat m = Some c \<and> chat_type c = js ''private''
        \<and> fst (rateLimit (dateNow e) (from_id (m_from m)) (lastRequestAt st))
        \<and> isAdmin cfg (from_id (m_from m)) \<and> m_document m = Some d
        \<and> isValidDocumentType (orEmpty (doc_mime_type d))
        \<and> safeText (Some (orEmpty (m_caption m))) \<noteq> []
        \<and> metaParts (safeText (Some (orEmpty (m_caption m)))) = (i, t, a) \<and> t \<noteq> []
        \<and> safeFileId (Some (doc_file_id d)) \<noteq> []
        \<and> findByFileId (books st) (safeFileId (Some (doc_file_id d))) = None
        \<and> appendError e = None \<and> fetchError e = Some err
        \<longrightarrow> onMessage cfg e msg st =
              ([AppendRow [i, t, a, safeFileId (Some (doc_file_id d))], GetRows,
                Log (LoadSheetError err), Log (AdminUploadError err),
                SendMessage (chat_id c) (FailedToSave t err)],
               (admitted e m st)
                 \<lparr>sheet := sheet st @ [[i, t, a, safeFileId (Some (doc_file_id d))]]\<rparr>))"
proof (intro conjI impI)
  show "loadSheet (Inl err) st = (Inl err, st)"
    by (simp add: loadSheet_def)
next
  assume "fst (loadSheet resp st) = Inl err"
  then show "resp = Inl err" "snd (loadSheet resp st) = st"
    by (cases resp; simp add: loadSheet_def Let_def)+
next
  assume "fetchError e = Some err"
  then show "reload e st = ([GetRows, Log (LoadSheetError err)], Some err, st)"
    by (rule reload_fails)
next
  assume f: "fetchError e = Some err"
  show "books (snd (onMessage cfg e msg st)) = books st"
    using onMessage_generation [OF f] by blast
  show "fuse (snd (onMessage cfg e msg st)) = fuse st"
    using onMessage_generation [OF f] by blast
next
  assume h: "msg = Some m \<and> m_chat m = Some c \<and> chat_type c = js ''private''
        \<and> fst (rateLimit (dateNow e) (from_id (m_from m)) (lastRequestAt st))
        \<and> isAdmin cfg (from_id (m_from m)) \<and> m_document m = Some d
        \<and> isValidDocumentType (orEmpty (doc_mime_type d))
        \<and> safeText (Some (orEmpty (m_caption m))) \<noteq> []
        \<and> metaParts (safeText (Some (orEmpty (m_caption m)))) = (i, t, a) \<and> t \<noteq> []
        \<and> safeFileId (Some (doc_file_id d)) \<noteq> []
        \<and> findByFileId (books st) (safeFileId (Some (doc_file_id d))) = None
        \<and> appendError e = None \<and> fetchError e = Some err"
  then have "onMessage cfg e msg st =
               handleUpload e (chat_id c) d (m_caption m) (admitted e m st)"
    using onMessage_upload [of m c e st d cfg] by blast
  moreover have "books (admitted e m st) = books st" "sheet (admitted e m st) = sheet st"
    by (simp_all add: admitted_def)
  ultimately show "onMessage cfg e msg st =
              ([AppendRow [i, t, a, safeFileId (Some (doc_file_id d))], GetRows,
                Log (LoadSheetError err), Log (AdminUploadError err),
                SendMessage (chat_id c) (FailedToSave t err)],
               (admitted e m st)
                 \<lparr>sheet := sheet st @ [[i, t, a, safeFileId (Some (doc_file_id d))]]\<rparr>)"
    using h handleUpload_reload_fails
      [of d "m_caption m" i t a "admitted e m st" e err "chat_id c"]
    by simp
qed

theorem failed_fetch_keeps_generation_witness:
  "loadSheet (Inl (Error (js ''403''))) sampleState = (Inl (Error (js ''403'')), sampleState)
   \<and> onMessage sampleConfig ((quietEnv 1700000002000)\<lparr>fetchError := Some (Error (js ''403''))\<rparr>)
       (Some (uploadMsg (Some (js ''9|New Title|X''))))
       (sampleState\<lparr>books := [], fuse := []\<rparr>) =
     ([AppendRow [js ''9'', js ''New Title'', js ''X'', js ''BQACAgQAAx''], GetRows,
       Log (LoadSheetError (Error (js ''403''))), Log (AdminUploadError (Error (js ''403''))),
       SendMessage 1001 (FailedToSave (js ''New Title'') (Error (js ''403'')))],
      sampleState
        \<lparr>books := [], fuse := [],
         lastRequestAt := [js ''1001'' \<mapsto> 1700000002000],
         sheet := sheet sampleState @ [[js ''9'', js ''New Title'', js ''X'', js ''BQACAgQAAx'']]\<rparr>)"
  using failed_fetch_keeps_generation
    [where err = "Error (js ''403'')" and st = "sampleState\<lparr>books := [], fuse := []\<rparr>"
       and resp = "Inl (Error (js ''403''))"
       and e = "(quietEnv 1700000002000)\<lparr>fetchError := Some (Error (js ''403''))\<rparr>"
       and cfg = sampleConfig and msg = "Some (uploadMsg (Some (js ''9|New Title|X'')))"
       and m = "uploadMsg (Some (js ''9|New Title|X''))"
       and c = "\<lparr>chat_type = js ''private'', chat_id = 1001\<rparr>"
       and d = "\<lparr>doc_file_id = js ''BQACAgQAAx'', doc_mime_type = Some (js ''application/pdf'')\<rparr>"
       and i = "js ''9''" and t = "js ''New Title''" and a = "js ''X''",
     THEN conjunct2, THEN conjunct2, THEN conjunct2, THEN conjunct2]
    failed_fetch_keeps_generation
    [where err = "Error (js ''403'')" and st = sampleState, THEN conjunct1]
  by (simp add: handler_defs sample_defs2 string_defs)

text \<open>
  C7. The text is split at every \<open>|\<close> (code unit 124) and each segment is trimmed; the
  first three segments are id, title and author, a missing segment is empty and further
  segments are ignored. \<open>007|Great Book|Jane Doe\<close> and \<open>|Great Book|\<close> give the values the
  specification names; \<open>007||Jane Doe\<close> has an empty title. A caption (a text that is
  not empty once cleaned) or a metadata reply with an empty title is answered by the
  format message alone: apart from the timestamp of the rate limiter the state is as it
  was, so nothing is appended and no session changes. A caption with a title, on a
  document with a reference that no book has, is accepted: the first call appends the row.
\<close>

theorem caption_parsing:
  "metaParts (js ''007|Great Book|Jane Doe'') = (js ''007'', js ''Great Book'', js ''Jane Doe'')
   \<and> metaParts (js ''|Great Book|'') = ([], js ''Great Book'', [])
   \<and> metaParts (js ''007||Jane Doe'') = (js ''007'', [], js ''Jane Doe'')
   \<and> (124 \<notin> set x \<longrightarrow> metaParts x = (trim x, [], []))
   \<and> (124 \<notin> set x \<and> 124 \<notin> set y \<longrightarrow> metaParts (x @ 124 # y) = (trim x, trim y, []))
   \<and> (124 \<notin> set x \<and> 124 \<notin> set y \<and> 124 \<notin> set z
        \<longrightarrow> metaParts (x @ 124 # y @ 124 # z) = (trim x, trim y, trim z)
          \<and> metaParts (x @ 124 # y @ 124 # z @ 124 # extra) = (trim x, trim y, trim z))
   \<and> (m_chat m = Some c \<and> chat_type c = js ''private''
        \<and> fst (rateLimit (dateNow e) (from_id (m_from m)) (lastRequestAt st))
        \<and> isAdmin cfg (from_id (m_from m)) \<and> m_document m = Some d
        \<and> isValidDocumentType (orEmpty (doc_mime_type d))
        \<and> safeText (Some (orEmpty (m_caption m))) \<noteq> []
        \<and> fst (snd (metaParts (safeText (Some (orEmpty (m_caption m)))))) = []
        \<longrightarrow> onMessage cfg e (Some m) st =
              ([SendMessage (chat_id c) CaptionFormat], admitted e m st))
   \<and> (m_chat m = Some c \<and> chat_type c = js ''private''
        \<and> fst (rateLimit (dateNow e) (from_id (m_from m)) (lastRequestAt st))
        \<and> isAdmin cfg (from_id (m_from m)) \<and> m_document m = None
        \<and> m_reply_to_message m \<and> waitingForMeta st (chat_id c) = Some s
        \<and> m_text m = Some txt \<and> txt \<noteq> []
        \<and> fst (snd (metaParts (safeText (Some txt)))) = []
        \<longrightarrow> onMessage cfg e (Some m) st =
              ([SendMessage (chat_id c) InvalidMetadata], admitted e m st))
   \<and> (m_chat m = Some c \<and> chat_type c = js ''private''
        \<and> fst (rateLimit (dateNow e) (from_id (m_from m)) (lastRequestAt st))
        \<and> isAdmin cfg (from_id (m_from m)) \<and> m_document m = Some d
        \<and> isValidDocumentType (orEmpty (doc_mime_type d))
        \<and> safeText (Some (orEmpty (m_caption m))) \<noteq> []
        \<and> metaParts (safeText (Some (orEmpty (m_caption m)))) = (i, t, a) \<and> t \<noteq> []
        \<and> safeFileId (Some (doc_file_id d)) \<noteq> []
        \<and> findByFileId (books st) (safeFileId (Some (doc_file_id d))) = None
        \<longrightarrow> hd (fst (onMessage cfg e (Some m) st)) =
              AppendRow [i, t, a, safeFileId (Some (doc_file_id d))])"
proof (intro conjI impI)
  show "metaParts (js ''007|Great Book|Jane Doe'') = (js ''007'', js ''Great Book'', js ''Jane Doe'')"
    by (simp add: metaParts_def js_def trim_def isWhiteSpace_def cell_def orEmpty_def)
  show "metaParts (js ''|Great Book|'') = ([], js ''Great Book'', [])"
    by (simp add: metaParts_def js_def trim_def isWhiteSpace_def cell_def orEmpty_def)
  show "metaParts (js ''007||Jane Doe'') = (js ''007'', [], js ''Jane Doe'')"
    by (simp add: metaParts_def js_def trim_def isWhiteSpace_def cell_def orEmpty_def)
next
  assume "124 \<notin> set x"
  then show "metaParts x = (trim x, [], [])"
    by (rule metaParts_one)
next
  assume "124 \<notin> set x \<and> 124 \<notin> set y"
  then show "metaParts (x @ 124 # y) = (trim x, trim y, [])"
    by (simp add: metaParts_two)
next
  assume h: "124 \<notin> set x \<and> 124 \<notin> set y \<and> 124 \<notin> set z"
  then show "metaParts (x @ 124 # y @ 124 # z) = (trim x, trim y, trim z)"
    by (simp add: metaParts_three)
  from h show "metaParts (x @ 124 # y @ 124 # z @ 124 # extra) = (trim x, trim y, trim z)"
    by (simp add: metaParts_more)
next
  assume h: "m_chat m = Some c \<and> chat_type c = js ''private''
        \<and> fst (rateLimit (dateNow e) (from_id (m_from m)) (lastRequestAt st))
        \<and> isAdmin cfg (from_id (m_from m)) \<and> m_document m = Some d
        \<and> isValidDocumentType (orEmpty (doc_mime_type d))
        \<and> safeText (Some (orEmpty (m_caption m))) \<noteq> []
        \<and> fst (snd (metaParts (safeText (Some (orEmpty (m_caption m)))))) = []"
  then have "onMessage cfg e (Some m) st =
               handleUpload e (chat_id c) d (m_caption m) (admitted e m st)"
    using onMessage_upload [of m c e st d cfg] by blast
  with h show "onMessage cfg e (Some m) st =
              ([SendMessage (chat_id c) CaptionFormat], admitted e m st)"
    by (simp add: handleUpload_malformed)
next
  assume h: "m_chat m = Some c \<and> chat_type c = js ''private''
        \<and> fst (rateLimit (dateNow e) (from_id (m_from m)) (lastRequestAt st))
        \<and> isAdmin cfg (from_id (m_from m)) \<and> m_document m = None
        \<and> m_reply_to_message m \<and> waitingForMeta st (chat_id c) = Some s
        \<and> m_text m = Some txt \<and> txt \<noteq> []
        \<and> fst (snd (metaParts (safeText (Some txt)))) = []"
  then have tr: "truthy (m_text m)" and tx: "orEmpty (m_text m) = txt"
    by (simp_all add: truthy_def orEmpty_def)
  from h have step: "onMessage cfg e (Some m) st =
                       handleMetaReply e (chat_id c) s txt (admitted e m st)"
    using onMessage_metaReply [of m c e st s cfg] tr tx by simp
  obtain i' t' a' where p: "metaParts (safeText (Some txt)) = (i', t', a')"
    by (cases "metaParts (safeText (Some txt))") auto
  with h have "t' = []"
    by simp
  with p step show "onMessage cfg e (Some m) st =
              ([SendMessage (chat_id c) InvalidMetadata], admitted e m st)"
    by (simp add: handleMetaReply_def Let_def)
next
  assume h: "m_chat m = Some c \<and> chat_type c = js ''private''
        \<and> fst (rateLimit (dateNow e) (from_id (m_from m)) (lastRequestAt st))
        \<and> isAdmin cfg (from_id (m_from m)) \<and> m_document m = Some d
        \<and> isValidDocumentType (orEmpty (doc_mime_type d))
        \<and> safeText (Some (orEmpty (m_caption m))) \<noteq> []
        \<and> metaParts (safeText (Some (orEmpty (m_caption m)))) = (i, t, a) \<and> t \<noteq> []
        \<and> safeFileId (Some (doc_file_id d)) \<noteq> []
        \<and> findByFileId (books st) (safeFileId (Some (doc_file_id d))) = None"
  then have "onMessage cfg e (Some m) st =
               handleUpload e (chat_id c) d (m_caption m) (admitted e m st)"
    using onMessage_upload [of m c e st d cfg] by blast
  moreover have "books (admitted e m st) = books st"
    by (simp add: admitted_def)
  ultimately show "hd (fst (onMessage cfg e (Some m) st)) =
              AppendRow [i, t, a, safeFileId (Some (doc_file_id d))]"
    using h handleUpload_accepted [of d "m_caption m" i t a "admitted e m st" e "chat_id c"]
    by simp
qed

theorem caption_parsing_witness:
  "onMessage sampleConfig (quietEnv 1700000002000) (Some (uploadMsg (Some (js ''007||Jane Doe''))))
     sampleState =
     ([SendMessage 1001 CaptionFormat],
      sampleState\<lparr>lastRequestAt := [js ''1001'' \<mapsto> 1700000002000]\<rparr>)
   \<and> onMessage sampleConfig (quietEnv 1700000002000)
       (Some (textMsg librarian 1001 True (js ''Great Book''))) sampleState =
     ([SendMessage 1001 InvalidMetadata],
      sampleState\<lparr>lastRequestAt := [js ''1001'' \<mapsto> 1700000002000]\<rparr>)
   \<and> hd (fst (onMessage sampleConfig (quietEnv 1700000002000)
                (Some (uploadMsg (Some (js ''|Great Book|'')))) emptyState)) =
     AppendRow [[], js ''Great Book'', [], js ''BQACAgQAAx'']
   \<and> metaParts (js '' 7 | A Title '') = (js ''7'', js ''A Title'', [])"
  using caption_parsing
    [where m = "uploadMsg (Some (js ''007||Jane Doe''))"
       and c = "\<lparr>chat_type = js ''private'', chat_id = 1001\<rparr>"
       and e = "quietEnv 1700000002000" and st = sampleState and cfg = sampleConfig
       and d = "\<lparr>doc_file_id = js ''BQACAgQAAx'', doc_mime_type = Some (js ''application/pdf'')\<rparr>"
       and s = "\<lparr>s_file_id = js ''BQACAgQAAx'', s_mimeType = js ''application/pdf''\<rparr>"
       and ?txt = "js ''Great Book''" and i = "[]" and t = "js ''Great Book''" and a = "[]"
       and x = "js '' 7 ''" and y = "js '' A Title ''" and z = "[]" and extra = "[]"]
    caption_parsing
    [where m = "textMsg librarian 1001 True (js ''Great Book'')"
       and c = "\<lparr>chat_type = js ''private'', chat_id = 1001\<rparr>"
       and e = "quietEnv 1700000002000" and st = sampleState and cfg = sampleConfig
       and d = "\<lparr>doc_file_id = js ''BQACAgQAAx'', doc_mime_type = Some (js ''application/pdf'')\<rparr>"
       and s = "\<lparr>s_file_id = js ''BQACAgQAAx'', s_mimeType = js ''application/pdf''\<rparr>"
       and ?txt = "js ''Great Book''" and i = "[]" and t = "js ''Great Book''" and a = "[]"
       and x = "js '' 7 ''" and y = "js '' A Title ''" and z = "[]" and extra = "[]"]
    caption_parsing
    [where m = "uploadMsg (Some (js ''|Great Book|''))"
       and c = "\<lparr>chat_type = js ''private'', chat_id = 1001\<rparr>"
       and e = "quietEnv 1700000002000" and st = emptyState and cfg = sampleConfig
       and d = "\<lparr>doc_file_id = js ''BQACAgQAAx'', doc_mime_type = Some (js ''application/pdf'')\<rparr>"
       and s = "\<lparr>s_file_id = js ''BQACAgQAAx'', s_mimeType = js ''application/pdf''\<rparr>"
       and ?txt = "js ''Great Book''" and i = "[]" and t = "js ''Great Book''" and a = "[]"
       and x = "js '' 7 ''" and y = "js '' A Title ''" and z = "[]" and extra = "[]"]
  by (simp add: handler_defs sample_defs2 string_defs Let_def)

text \<open>
  C3. The sessions are a map from conversations, so a conversation has at most one. For a
  message of a private chat that the rate limiter admits: a document of an administrator,
  of an allowed type and with no caption (none, or one that is empty once cleaned), stores
  a session with the reference and the mime type for the conversation, whatever was
  stored before; a reply of an administrator with a title, while a session with a reference
  waits, appends the row when the append succeeds and leaves no session for the
  conversation; when no session waits, a reply is handled as the same message that
  replies to nothing, and a text that is not a command is a search query: nothing is
  appended and the sessions stay as they were.
\<close>

theorem intake_session_lifecycle:
  assumes "m_chat m = Some c" "chat_type c = js ''private''"
    "fst (rateLimit (dateNow e) (from_id (m_from m)) (lastRequestAt st))"
  shows "(m_document m = Some d \<and> isAdmin cfg (from_id (m_from m))
            \<and> isValidDocumentType (orEmpty (doc_mime_type d))
            \<and> safeText (Some (orEmpty (m_caption m))) = []
          \<longrightarrow> onMessage cfg e (Some m) st =
                ([SendMessage (chat_id c) (AskMetadata (orEmpty (doc_mime_type d)))],
                 (admitted e m st)
                   \<lparr>waitingForMeta :=
                      (waitingForMeta st)(chat_id c \<mapsto>
                         \<lparr>s_file_id = safeFileId (Some (doc_file_id d)),
                          s_mimeType = orEmpty (doc_mime_type d)\<rparr>)\<rparr>))
       \<and> (m_document m = None \<and> m_reply_to_message m \<and> waitingForMeta st (chat_id c) = Some s
            \<and> isAdmin cfg (from_id (m_from m)) \<and> m_text m = Some txt \<and> txt \<noteq> []
            \<and> metaParts (safeText (Some txt)) = (i, t, a) \<and> t \<noteq> [] \<and> s_file_id s \<noteq> []
            \<and> appendError e = None
          \<longrightarrow> hd (fst (onMessage cfg e (Some m) st)) =
                AppendRow [i, t, a, safeFileId (Some (s_file_id s))]
              \<and> sheet (snd (onMessage cfg e (Some m) st)) =
                sheet st @ [[i, t, a, safeFileId (Some (s_file_id s))]]
              \<and> waitingForMeta (snd (onMessage cfg e (Some m) st)) =
                (waitingForMeta st)(chat_id c := None))
       \<and> (waitingForMeta st (chat_id c) = None
          \<longrightarrow> onMessage cfg e (Some m) st =
                onMessage cfg e (Some (m\<lparr>m_reply_to_message := False\<rparr>)) st)
       \<and> (waitingForMeta st (chat_id c) = None \<and> m_document m = None
            \<and> m_text m = Some txt \<and> txt \<noteq> [] \<and> hd txt \<noteq> 47
          \<longrightarrow> onMessage cfg e (Some m) st =
                handleQuery cfg e (chat_id c) (m_from m) txt (admitted e m st)
              \<and> sheet (snd (onMessage cfg e (Some m) st)) = sheet st
              \<and> waitingForMeta (snd (onMessage cfg e (Some m) st)) = waitingForMeta st)"
proof (intro conjI impI)
  assume h: "m_document m = Some d \<and> isAdmin cfg (from_id (m_from m))
            \<and> isValidDocumentType (orEmpty (doc_mime_type d))
            \<and> safeText (Some (orEmpty (m_caption m))) = []"
  then have "onMessage cfg e (Some m) st =
               handleUpload e (chat_id c) d (m_caption m) (admitted e m st)"
    using onMessage_upload [OF assms] by blast
  with h show "onMessage cfg e (Some m) st =
                ([SendMessage (chat_id c) (AskMetadata (orEmpty (doc_mime_type d)))],
                 (admitted e m st)
                   \<lparr>waitingForMeta :=
                      (waitingForMeta st)(chat_id c \<mapsto>
                         \<lparr>s_file_id = safeFileId (Some (doc_file_id d)),
                          s_mimeType = orEmpty (doc_mime_type d)\<rparr>)\<rparr>)"
    by (simp add: handleUpload_no_caption admitted_def)
next
  assume h: "m_document m = None \<and> m_reply_to_message m \<and> waitingForMeta st (chat_id c) = Some s
            \<and> isAdmin cfg (from_id (m_from m)) \<and> m_text m = Some txt \<and> txt \<noteq> []
            \<and> metaParts (safeText (Some txt)) = (i, t, a) \<and> t \<noteq> [] \<and> s_file_id s \<noteq> []
            \<and> appendError e = None"
  then have tr: "truthy (m_text m)" and tx: "orEmpty (m_text m) = txt"
    by (simp_all add: truthy_def orEmpty_def)
  from h have step: "onMessage cfg e (Some m) st =
                       handleMetaReply e (chat_id c) s txt (admitted e m st)"
    using onMessage_metaReply [OF assms, of s cfg] tr tx by simp
  from h have v: "metaParts (safeText (Some txt)) = (i, t, a)" "t \<noteq> []" "s_file_id s \<noteq> []"
    "appendError e = None"
    by blast+
  note r = handleMetaReply_appends [OF v, of "chat_id c" "admitted e m st"]
  from r step show "hd (fst (onMessage cfg e (Some m) st)) =
                AppendRow [i, t, a, safeFileId (Some (s_file_id s))]"
    by simp
  from r step show "sheet (snd (onMessage cfg e (Some m) st)) =
                sheet st @ [[i, t, a, safeFileId (Some (s_file_id s))]]"
    by (simp add: admitted_def)
  from r step show "waitingForMeta (snd (onMessage cfg e (Some m) st)) =
                (waitingForMeta st)(chat_id c := None)"
    by (simp add: admitted_def)
next
  assume "waitingForMeta st (chat_id c) = None"
  then show "onMessage cfg e (Some m) st =
                onMessage cfg e (Some (m\<lparr>m_reply_to_message := False\<rparr>)) st"
    by (rule onMessage_reply_marker [OF assms(1)])
next
  assume h: "waitingForMeta st (chat_id c) = None \<and> m_document m = None
            \<and> m_text m = Some txt \<and> txt \<noteq> [] \<and> hd txt \<noteq> 47"
  then have tr: "truthy (m_text m)" and tx: "orEmpty (m_text m) = txt"
    by (simp_all add: truthy_def orEmpty_def)
  from h have step: "onMessage cfg e (Some m) st =
                handleQuery cfg e (chat_id c) (m_from m) txt (admitted e m st)"
    using onMessage_text [OF assms, of cfg] tr tx by simp
  then show "onMessage cfg e (Some m) st =
                handleQuery cfg e (chat_id c) (m_from m) txt (admitted e m st)" .
  from step show "sheet (snd (onMessage cfg e (Some m) st)) = sheet st"
    by (simp add: handleQuery_store admitted_def)
  from step show "waitingForMeta (snd (onMessage cfg e (Some m) st)) = waitingForMeta st"
    by (simp add: handleQuery_store admitted_def)
qed

theorem intake_session_lifecycle_witness:
  "onMessage sampleConfig (quietEnv 1700000000000) (Some (uploadMsg None)) emptyState =
     ([SendMessage 1001 (AskMetadata (js ''application/pdf''))],
      emptyState
        \<lparr>waitingForMeta := [1001 \<mapsto> \<lparr>s_file_id = js ''BQACAgQAAx'', s_mimeType = js ''application/pdf''\<rparr>],
         lastRequestAt := [js ''1001'' \<mapsto> 1700000000000]\<rparr>)
   \<and> sheet (snd (onMessage sampleConfig (quietEnv 1700000002000)
                 (Some (textMsg librarian 1001 True (js ''007|Great Book|Jane Doe''))) sampleState)) =
     sheet sampleState @ [[js ''007'', js ''Great Book'', js ''Jane Doe'', js ''BQACAgQAAx'']]
   \<and> waitingForMeta (snd (onMessage sampleConfig (quietEnv 1700000002000)
                 (Some (textMsg librarian 1001 True (js ''007|Great Book|Jane Doe''))) sampleState))
        1001 = None
   \<and> onMessage sampleConfig (quietEnv 1700000002000)
        (Some (textMsg librarian 1001 True (js ''007|Great Book|Jane Doe''))) emptyState =
     ([SaveDB, SendMessage 1001 (NoMatchAdmin (js ''007|Great Book|Jane Doe'')),
       NotifyAdmin (js ''1001'')
         \<lparr>n_userId = js ''1001'', n_userName = js ''lib'',
          n_query = UserQuery (js ''007|Great Book|Jane Doe''), n_time = None\<rparr>,
       NotifyAdmin (js ''1002'')
         \<lparr>n_userId = js ''1001'', n_userName = js ''lib'',
          n_query = UserQuery (js ''007|Great Book|Jane Doe''), n_time = None\<rparr>],
      emptyState
        \<lparr>lastRequestAt := [js ''1001'' \<mapsto> 1700000002000],
         requests := [\<lparr>req_id = (1700000002001, js ''1001''), req_userId = js ''1001'',
                       req_userName = js ''lib'', req_query = js ''007|Great Book|Jane Doe'',
                       req_createdAt = 1700000002002\<rparr>]\<rparr>)"
proof -
  note upload =
    intake_session_lifecycle
      [where m = "uploadMsg None"
         and c = "\<lparr>chat_type = js ''private'', chat_id = 1001\<rparr>"
         and e = "quietEnv 1700000000000" and st = emptyState and cfg = sampleConfig
         and d = "\<lparr>doc_file_id = js ''BQACAgQAAx'', doc_mime_type = Some (js ''application/pdf'')\<rparr>"
         and s = "\<lparr>s_file_id = js ''BQACAgQAAx'', s_mimeType = js ''application/pdf''\<rparr>"
         and ?txt = "js ''007|Great Book|Jane Doe''"
         and i = "js ''007''" and t = "js ''Great Book''" and a = "js ''Jane Doe''",
       THEN conjunct1]
  note reply =
    intake_session_lifecycle
      [where m = "textMsg librarian 1001 True (js ''007|Great Book|Jane Doe'')"
         and c = "\<lparr>chat_type = js ''private'', chat_id = 1001\<rparr>"
         and e = "quietEnv 1700000002000" and st = sampleState and cfg = sampleConfig
         and d = "\<lparr>doc_file_id = js ''BQACAgQAAx'', doc_mime_type = Some (js ''application/pdf'')\<rparr>"
         and s = "\<lparr>s_file_id = js ''BQACAgQAAx'', s_mimeType = js ''application/pdf''\<rparr>"
         and ?txt = "js ''007|Great Book|Jane Doe''"
         and i = "js ''007''" and t = "js ''Great Book''" and a = "js ''Jane Doe''",
       THEN conjunct2, THEN conjunct1]
  note query =
    intake_session_lifecycle
      [where m = "textMsg librarian 1001 True (js ''007|Great Book|Jane Doe'')"
         and c = "\<lparr>chat_type = js ''private'', chat_id = 1001\<rparr>"
         and e = "quietEnv 1700000002000" and st = emptyState and cfg = sampleConfig
         and d = "\<lparr>doc_file_id = js ''BQACAgQAAx'', doc_mime_type = Some (js ''application/pdf'')\<rparr>"
         and s = "\<lparr>s_file_id = js ''BQACAgQAAx'', s_mimeType = js ''application/pdf''\<rparr>"
         and ?txt = "js ''007|Great Book|Jane Doe''"
         and i = "js ''007''" and t = "js ''Great Book''" and a = "js ''Jane Doe''",
       THEN conjunct2, THEN conjunct2, THEN conjunct2]
  have 1: "onMessage sampleConfig (quietEnv 1700000000000) (Some (uploadMsg None)) emptyState =
     ([SendMessage 1001 (AskMetadata (js ''application/pdf''))],
      emptyState
        \<lparr>waitingForMeta := [1001 \<mapsto> \<lparr>s_file_id = js ''BQACAgQAAx'', s_mimeType = js ''application/pdf''\<rparr>],
         lastRequestAt := [js ''1001'' \<mapsto> 1700000000000]\<rparr>)"
    using upload by (simp add: handler_defs sample_defs2 string_defs)
  have 2: "sheet (snd (onMessage sampleConfig (quietEnv 1700000002000)
                 (Some (textMsg librarian 1001 True (js ''007|Great Book|Jane Doe''))) sampleState)) =
     sheet sampleState @ [[js ''007'', js ''Great Book'', js ''Jane Doe'', js ''BQACAgQAAx'']]
   \<and> waitingForMeta (snd (onMessage sampleConfig (quietEnv 1700000002000)
                 (Some (textMsg librarian 1001 True (js ''007|Great Book|Jane Doe''))) sampleState))
        1001 = None"
    using reply by (simp add: handler_defs sample_defs2 string_defs)
  have 3: "onMessage sampleConfig (quietEnv 1700000002000)
        (Some (textMsg librarian 1001 True (js ''007|Great Book|Jane Doe''))) emptyState =
     ([SaveDB, SendMessage 1001 (NoMatchAdmin (js ''007|Great Book|Jane Doe'')),
       NotifyAdmin (js ''1001'')
         \<lparr>n_userId = js ''1001'', n_userName = js ''lib'',
          n_query = UserQuery (js ''007|Great Book|Jane Doe''), n_time = None\<rparr>,
       NotifyAdmin (js ''1002'')
         \<lparr>n_userId = js ''1001'', n_userName = js ''lib'',
          n_query = UserQuery (js ''007|Great Book|Jane Doe''), n_time = None\<rparr>],
      emptyState
        \<lparr>lastRequestAt := [js ''1001'' \<mapsto> 1700000002000],
         requests := [\<lparr>req_id = (1700000002001, js ''1001''), req_userId = js ''1001'',
                       req_userName = js ''lib'', req_query = js ''007|Great Book|Jane Doe'',
                       req_createdAt = 1700000002002\<rparr>]\<rparr>)"
    using query
    by (simp add: handler_defs sample_defs2 string_defs handleQuery_def
          notifyAdminsAboutRequest_def Let_def)
  from 1 2 3 show ?thesis
    by blast
qed

text \<open>
  C4. On the caption path, when some book of the generation has the reference of the
  document, the handler only answers with the title of the first book of the generation
  with that reference: nothing is appended. When no book has it, the caption is not
  refused: the first call appends the row. The reply path has no such check: when some
  book of a generation that is in step with the sheet has the reference of the session, a
  reply with a title appends the row, and after the reload the generation has the former
  books followed by the new one, so at least two entries with that reference.
\<close>

theorem duplicate_check_only_on_caption_path:
  assumes "m_chat m = Some c" "chat_type c = js ''private''"
    "fst (rateLimit (dateNow e) (from_id (m_from m)) (lastRequestAt st))"
    "isAdmin cfg (from_id (m_from m))"
  shows "(m_document m = Some d \<and> isValidDocumentType (orEmpty (doc_mime_type d))
            \<and> safeText (Some (orEmpty (m_caption m))) \<noteq> []
            \<and> metaParts (safeText (Some (orEmpty (m_caption m)))) = (i, t, a) \<and> t \<noteq> []
            \<and> safeFileId (Some (doc_file_id d)) \<noteq> []
            \<and> b0 \<in> set (books st) \<and> b_file_id b0 = safeFileId (Some (doc_file_id d))
          \<longrightarrow> onMessage cfg e (Some m) st =
                ([SendMessage (chat_id c)
                    (AlreadyInLibrary
                       (b_title (hd (filter (\<lambda>x. b_file_id x = safeFileId (Some (doc_file_id d)))
                                       (books st)))))],
                 admitted e m st)
              \<and> hd (filter (\<lambda>x. b_file_id x = safeFileId (Some (doc_file_id d))) (books st))
                  \<in> set (books st)
              \<and> b_file_id (hd (filter (\<lambda>x. b_file_id x = safeFileId (Some (doc_file_id d)))
                                   (books st))) =
                  safeFileId (Some (doc_file_id d)))
       \<and> (m_document m = Some d \<and> isValidDocumentType (orEmpty (doc_mime_type d))
            \<and> safeText (Some (orEmpty (m_caption m))) \<noteq> []
            \<and> metaParts (safeText (Some (orEmpty (m_caption m)))) = (i, t, a) \<and> t \<noteq> []
            \<and> safeFileId (Some (doc_file_id d)) \<noteq> []
            \<and> list_all (\<lambda>x. b_file_id x \<noteq> safeFileId (Some (doc_file_id d))) (books st)
          \<longrightarrow> hd (fst (onMessage cfg e (Some m) st)) =
                AppendRow [i, t, a, safeFileId (Some (doc_file_id d))])
       \<and> (m_document m = None \<and> m_reply_to_message m \<and> waitingForMeta st (chat_id c) = Some s
            \<and> m_text m = Some txt \<and> txt \<noteq> []
            \<and> metaParts (safeText (Some txt)) = (i, t, a) \<and> t \<noteq> []
            \<and> books st = catalogOf (sheet st)
            \<and> b0 \<in> set (books st) \<and> b_file_id b0 = s_file_id s
            \<and> appendError e = None \<and> fetchError e = None
          \<longrightarrow> fst (onMessage cfg e (Some m) st) =
                [AppendRow [i, t, a, s_file_id s], GetRows,
                 SendMessage (chat_id c) (SavedToSheet t)]
              \<and> sheet (snd (onMessage cfg e (Some m) st)) = sheet st @ [[i, t, a, s_file_id s]]
              \<and> books (snd (onMessage cfg e (Some m) st)) =
                books st @ [\<lparr>b_id = i, b_title = t, b_author = a, b_file_id = s_file_id s\<rparr>]
              \<and> 2 \<le> length (filter (\<lambda>x. b_file_id x = s_file_id s)
                               (books (snd (onMessage cfg e (Some m) st)))))"
proof (intro conjI impI)
  let ?ref = "safeFileId (Some (doc_file_id d))"
  let ?first = "hd (filter (\<lambda>x. b_file_id x = ?ref) (books st))"
  assume h: "m_document m = Some d \<and> isValidDocumentType (orEmpty (doc_mime_type d))
            \<and> safeText (Some (orEmpty (m_caption m))) \<noteq> []
            \<and> metaParts (safeText (Some (orEmpty (m_caption m)))) = (i, t, a) \<and> t \<noteq> []
            \<and> safeFileId (Some (doc_file_id d)) \<noteq> []
            \<and> b0 \<in> set (books st) \<and> b_file_id b0 = safeFileId (Some (doc_file_id d))"
  then have found: "findByFileId (books st) ?ref = Some ?first"
    using findByFileId_first [of b0 "books st" ?ref] by blast
  from h have "onMessage cfg e (Some m) st =
               handleUpload e (chat_id c) d (m_caption m) (admitted e m st)"
    using onMessage_upload [OF assms(1-3) _ assms(4)] by blast
  moreover have "books (admitted e m st) = books st"
    by (simp add: admitted_def)
  ultimately show "onMessage cfg e (Some m) st =
                ([SendMessage (chat_id c) (AlreadyInLibrary (b_title ?first))], admitted e m st)"
    using h found
      handleUpload_duplicate [of d "m_caption m" i t a "admitted e m st" ?first e "chat_id c"]
    by simp
  from found show "?first \<in> set (books st)" "b_file_id ?first = ?ref"
    using findByFileId_Some [of "books st" ?ref ?first] by blast+
next
  assume h: "m_document m = Some d \<and> isValidDocumentType (orEmpty (doc_mime_type d))
            \<and> safeText (Some (orEmpty (m_caption m))) \<noteq> []
            \<and> metaParts (safeText (Some (orEmpty (m_caption m)))) = (i, t, a) \<and> t \<noteq> []
            \<and> safeFileId (Some (doc_file_id d)) \<noteq> []
            \<and> list_all (\<lambda>x. b_file_id x \<noteq> safeFileId (Some (doc_file_id d))) (books st)"
  then have none: "findByFileId (books st) (safeFileId (Some (doc_file_id d))) = None"
    using findByFileId_none by blast
  from h have "onMessage cfg e (Some m) st =
               handleUpload e (chat_id c) d (m_caption m) (admitted e m st)"
    using onMessage_upload [OF assms(1-3) _ assms(4)] by blast
  moreover have "books (admitted e m st) = books st"
    by (simp add: admitted_def)
  ultimately show "hd (fst (onMessage cfg e (Some m) st)) =
                AppendRow [i, t, a, safeFileId (Some (doc_file_id d))]"
    using h none handleUpload_accepted [of d "m_caption m" i t a "admitted e m st" e "chat_id c"]
    by simp
next
  assume h: "m_document m = None \<and> m_reply_to_message m \<and> waitingForMeta st (chat_id c) = Some s
            \<and> m_text m = Some txt \<and> txt \<noteq> []
            \<and> metaParts (safeText (Some txt)) = (i, t, a) \<and> t \<noteq> []
            \<and> books st = catalogOf (sheet st)
            \<and> b0 \<in> set (books st) \<and> b_file_id b0 = s_file_id s
            \<and> appendError e = None \<and> fetchError e = None"
  then have tr: "truthy (m_text m)" and tx: "orEmpty (m_text m) = txt"
    by (simp_all add: truthy_def orEmpty_def)
  from h have step: "onMessage cfg e (Some m) st =
                       handleMetaReply e (chat_id c) s txt (admitted e m st)"
    using onMessage_metaReply [OF assms(1-3) _ _ _ assms(4), of s] tr tx by simp
  from h have b: "b0 \<in> set (catalogOf (sheet st))" "b_file_id b0 = s_file_id s"
    by auto
  then have f: "safeFileId (Some (s_file_id s)) = s_file_id s" "s_file_id s \<noteq> []"
    "sheet st \<noteq> []"
    using catalogOf_reference [of b0 "sheet st"] by auto
  from h have p: "metaParts (safeText (Some txt)) = (i, t, a)" "t \<noteq> []"
    by blast+
  from h have ok: "appendError e = None" "fetchError e = None"
    by blast+
  note clean = metaParts_safeText [OF p(1)]
  have rec: "rowRecord [i, t, a, s_file_id s] =
               \<lparr>b_id = i, b_title = t, b_author = a, b_file_id = s_file_id s\<rparr>"
    using clean f(1) by (simp add: rowRecord_clean)
  then have kept: "rowKept [i, t, a, s_file_id s]"
    using p(2) f(2) by (simp add: rowKept_def)
  have cat: "catalogOf (sheet st @ [[i, t, a, s_file_id s]]) =
               books st @ [\<lparr>b_id = i, b_title = t, b_author = a, b_file_id = s_file_id s\<rparr>]"
    using catalogOf_append [OF f(3) kept] rec h by simp
  note r = handleMetaReply_saved [OF p f(2) ok, of "chat_id c" "admitted e m st", unfolded f(1)]
  from r step show "fst (onMessage cfg e (Some m) st) =
                [AppendRow [i, t, a, s_file_id s], GetRows,
                 SendMessage (chat_id c) (SavedToSheet t)]"
    by simp
  from r step show "sheet (snd (onMessage cfg e (Some m) st)) = sheet st @ [[i, t, a, s_file_id s]]"
    by (simp add: admitted_def)
  from r step cat show bk: "books (snd (onMessage cfg e (Some m) st)) =
                books st @ [\<lparr>b_id = i, b_title = t, b_author = a, b_file_id = s_file_id s\<rparr>]"
    by (simp add: admitted_def)
  have "filter (\<lambda>x. b_file_id x = s_file_id s) (books st) \<noteq> []"
    using h by (auto simp: filter_empty_conv)
  then have "1 \<le> length (filter (\<lambda>x. b_file_id x = s_file_id s) (books st))"
    by (cases "filter (\<lambda>x. b_file_id x = s_file_id s) (books st)") auto
  then show "2 \<le> length (filter (\<lambda>x. b_file_id x = s_file_id s)
                               (books (snd (onMessage cfg e (Some m) st))))"
    by (simp add: bk)
qed

theorem duplicate_check_only_on_caption_path_witness:
  "onMessage sampleConfig (quietEnv 1700000002000)
     (Some (uploadMsg (Some (js ''9|New Title|X'')))) twoBookState =
     ([SendMessage 1001 (AlreadyInLibrary (js ''Second Title''))],
      twoBookState\<lparr>lastRequestAt := [js ''1001'' \<mapsto> 1700000002000]\<rparr>)
   \<and> books (snd (onMessage sampleConfig (quietEnv 1700000002000)
                 (Some (textMsg librarian 1001 True (js ''007|Great Book|Jane Doe''))) twoBookState)) =
     [\<lparr>b_id = js ''001'', b_title = js ''Old Title'', b_author = js ''Someone'',
        b_file_id = js ''AAA''\<rparr>,
      \<lparr>b_id = js ''002'', b_title = js ''Second Title'', b_author = js ''Other'',
        b_file_id = js ''BQACAgQAAx''\<rparr>,
      \<lparr>b_id = js ''007'', b_title = js ''Great Book'', b_author = js ''Jane Doe'',
        b_file_id = js ''BQACAgQAAx''\<rparr>]"
proof -
  have 1: "onMessage sampleConfig (quietEnv 1700000002000)
     (Some (uploadMsg (Some (js ''9|New Title|X'')))) twoBookState =
     ([SendMessage 1001 (AlreadyInLibrary (js ''Second Title''))],
      twoBookState\<lparr>lastRequestAt := [js ''1001'' \<mapsto> 1700000002000]\<rparr>)"
    using duplicate_check_only_on_caption_path
      [where m = "uploadMsg (Some (js ''9|New Title|X''))"
         and c = "\<lparr>chat_type = js ''private'', chat_id = 1001\<rparr>"
         and e = "quietEnv 1700000002000" and st = twoBookState and cfg = sampleConfig
         and d = "\<lparr>doc_file_id = js ''BQACAgQAAx'', doc_mime_type = Some (js ''application/pdf'')\<rparr>"
         and i = "js ''9''" and t = "js ''New Title''" and a = "js ''X''"
         and ?b0.0 = "\<lparr>b_id = js ''002'', b_title = js ''Second Title'', b_author = js ''Other'',
                       b_file_id = js ''BQACAgQAAx''\<rparr>",
       THEN conjunct1]
    by (simp add: handler_defs sample_defs2 twoBookState_def string_defs)
  have 2: "books (snd (onMessage sampleConfig (quietEnv 1700000002000)
                 (Some (textMsg librarian 1001 True (js ''007|Great Book|Jane Doe''))) twoBookState)) =
     [\<lparr>b_id = js ''001'', b_title = js ''Old Title'', b_author = js ''Someone'',
        b_file_id = js ''AAA''\<rparr>,
      \<lparr>b_id = js ''002'', b_title = js ''Second Title'', b_author = js ''Other'',
        b_file_id = js ''BQACAgQAAx''\<rparr>,
      \<lparr>b_id = js ''007'', b_title = js ''Great Book'', b_author = js ''Jane Doe'',
        b_file_id = js ''BQACAgQAAx''\<rparr>]"
    using duplicate_check_only_on_caption_path
      [where m = "textMsg librarian 1001 True (js ''007|Great Book|Jane Doe'')"
         and c = "\<lparr>chat_type = js ''private'', chat_id = 1001\<rparr>"
         and e = "quietEnv 1700000002000" and st = twoBookState and cfg = sampleConfig
         and s = "\<lparr>s_file_id = js ''BQACAgQAAx'', s_mimeType = js ''application/pdf''\<rparr>"
         and ?txt = "js ''007|Great Book|Jane Doe''"
         and i = "js ''007''" and t = "js ''Great Book''" and a = "js ''Jane Doe''"
         and ?b0.0 = "\<lparr>b_id = js ''002'', b_title = js ''Second Title'', b_author = js ''Other'',
                       b_file_id = js ''BQACAgQAAx''\<rparr>",
       THEN conjunct2, THEN conjunct2]
    by (simp add: handler_defs sample_defs2 twoBookState_def string_defs)
  from 1 2 show ?thesis
    by blast
qed

text \<open>
  C9. On a metadata reply with a title, for a session that holds a reference, the session
  of the conversation is absent afterwards exactly when the append succeeded. If the
  append fails, the state is that after the rate limiter and the session stays. If the
  append succeeds and the reload fails, the row is in the sheet, the session is gone and
  the administrator reads the failure message; the deletion is made between the two calls.
\<close>

theorem session_deleted_exactly_when_append_succeeds:
  assumes "m_chat m = Some c" "chat_type c = js ''private''"
    "fst (rateLimit (dateNow e) (from_id (m_from m)) (lastRequestAt st))"
    "m_document m = None" "m_reply_to_message m" "waitingForMeta st (chat_id c) = Some s"
    "isAdmin cfg (from_id (m_from m))" "m_text m = Some txt" "txt \<noteq> []"
    "metaParts (safeText (Some txt)) = (i, t, a)" "t \<noteq> []" "s_file_id s \<noteq> []"
  shows "(waitingForMeta (snd (onMessage cfg e (Some m) st)) (chat_id c) = None
            \<longleftrightarrow> appendError e = None)
       \<and> (appendError e = Some err \<longrightarrow>
            onMessage cfg e (Some m) st =
              ([AppendRow [i, t, a, safeFileId (Some (s_file_id s))], Log (AppendRowError err),
                Log (ReplyFlowError err), SendMessage (chat_id c) (FailedSave err)],
               admitted e m st))
       \<and> (appendError e = None \<and> fetchError e = Some err \<longrightarrow>
            onMessage cfg e (Some m) st =
              ([AppendRow [i, t, a, safeFileId (Some (s_file_id s))], GetRows,
                Log (LoadSheetError err), Log (ReplyFlowError err),
                SendMessage (chat_id c) (FailedSave err)],
               (admitted e m st)
                 \<lparr>sheet := sheet st @ [[i, t, a, safeFileId (Some (s_file_id s))]],
                  waitingForMeta := (waitingForMeta st)((chat_id c) := None)\<rparr>))
       \<and> (appendError e = None \<and> fetchError e = None \<longrightarrow>
            onMessage cfg e (Some m) st =
              ([AppendRow [i, t, a, safeFileId (Some (s_file_id s))], GetRows,
                SendMessage (chat_id c) (SavedToSheet t)],
               (admitted e m st)
                 \<lparr>sheet := sheet st @ [[i, t, a, safeFileId (Some (s_file_id s))]],
                  waitingForMeta := (waitingForMeta st)((chat_id c) := None),
                  books := catalogOf (sheet st @ [[i, t, a, safeFileId (Some (s_file_id s))]]),
                  fuse := catalogOf (sheet st @ [[i, t, a, safeFileId (Some (s_file_id s))]])\<rparr>))"
proof -
  have tr: "truthy (m_text m)" and tx: "orEmpty (m_text m) = txt"
    using assms(8,9) by (simp_all add: truthy_def orEmpty_def)
  note step = onMessage_metaReply [OF assms(1-7) tr, unfolded tx]
  note v = assms(10-12)
  have fails: "appendError e = Some err \<longrightarrow>
            onMessage cfg e (Some m) st =
              ([AppendRow [i, t, a, safeFileId (Some (s_file_id s))], Log (AppendRowError err),
                Log (ReplyFlowError err), SendMessage (chat_id c) (FailedSave err)],
               admitted e m st)" for err
    using step handleMetaReply_append_fails [OF v] by simp
  have half: "appendError e = None \<and> fetchError e = Some err \<longrightarrow>
            onMessage cfg e (Some m) st =
              ([AppendRow [i, t, a, safeFileId (Some (s_file_id s))], GetRows,
                Log (LoadSheetError err), Log (ReplyFlowError err),
                SendMessage (chat_id c) (FailedSave err)],
               (admitted e m st)
                 \<lparr>sheet := sheet st @ [[i, t, a, safeFileId (Some (s_file_id s))]],
                  waitingForMeta := (waitingForMeta st)((chat_id c) := None)\<rparr>)" for err
    using step handleMetaReply_reload_fails [OF v, of e err "chat_id c" "admitted e m st"]
    by (simp add: admitted_def)
  have saved: "appendError e = None \<and> fetchError e = None \<longrightarrow>
            onMessage cfg e (Some m) st =
              ([AppendRow [i, t, a, safeFileId (Some (s_file_id s))], GetRows,
                SendMessage (chat_id c) (SavedToSheet t)],
               (admitted e m st)
                 \<lparr>sheet := sheet st @ [[i, t, a, safeFileId (Some (s_file_id s))]],
                  waitingForMeta := (waitingForMeta st)((chat_id c) := None),
                  books := catalogOf (sheet st @ [[i, t, a, safeFileId (Some (s_file_id s))]]),
                  fuse := catalogOf (sheet st @ [[i, t, a, safeFileId (Some (s_file_id s))]])\<rparr>)"
    using step handleMetaReply_saved [OF v, of e "chat_id c" "admitted e m st"]
    by (simp add: admitted_def)
  have iff: "waitingForMeta (snd (onMessage cfg e (Some m) st)) (chat_id c) = None
            \<longleftrightarrow> appendError e = None"
  proof (cases "appendError e")
    case None
    then show ?thesis
      using half saved by (cases "fetchError e") auto
  next
    case (Some err')
    then show ?thesis
      using fails [of err'] assms(6) by (simp add: admitted_def)
  qed
  from iff fails half saved show ?thesis
    by blast
qed

theorem session_deleted_exactly_when_append_succeeds_witness:
  "onMessage sampleConfig ((quietEnv 1700000002000)\<lparr>fetchError := Some (Error (js ''quota''))\<rparr>)
     (Some (textMsg librarian 1001 True (js ''007|Great Book|Jane Doe''))) sampleState =
     ([AppendRow [js ''007'', js ''Great Book'', js ''Jane Doe'', js ''BQACAgQAAx''], GetRows,
       Log (LoadSheetError (Error (js ''quota''))), Log (ReplyFlowError (Error (js ''quota''))),
       SendMessage 1001 (FailedSave (Error (js ''quota'')))],
      sampleState
        \<lparr>lastRequestAt := [js ''1001'' \<mapsto> 1700000002000],
         sheet := sheet sampleState @
                  [[js ''007'', js ''Great Book'', js ''Jane Doe'', js ''BQACAgQAAx'']],
         waitingForMeta := Map.empty\<rparr>)
   \<and> onMessage sampleConfig ((quietEnv 1700000002000)\<lparr>appendError := Some (Error (js ''quota''))\<rparr>)
     (Some (textMsg librarian 1001 True (js ''007|Great Book|Jane Doe''))) sampleState =
     ([AppendRow [js ''007'', js ''Great Book'', js ''Jane Doe'', js ''BQACAgQAAx''],
       Log (AppendRowError (Error (js ''quota''))), Log (ReplyFlowError (Error (js ''quota''))),
       SendMessage 1001 (FailedSave (Error (js ''quota'')))],
      sampleState\<lparr>lastRequestAt := [js ''1001'' \<mapsto> 1700000002000]\<rparr>)"
  using session_deleted_exactly_when_append_succeeds
    [where m = "textMsg librarian 1001 True (js ''007|Great Book|Jane Doe'')"
       and c = "\<lparr>chat_type = js ''private'', chat_id = 1001\<rparr>"
       and e = "(quietEnv 1700000002000)\<lparr>fetchError := Some (Error (js ''quota''))\<rparr>"
       and st = sampleState and cfg = sampleConfig
       and s = "\<lparr>s_file_id = js ''BQACAgQAAx'', s_mimeType = js ''application/pdf''\<rparr>"
       and ?txt = "js ''007|Great Book|Jane Doe''"
       and i = "js ''007''" and t = "js ''Great Book''" and a = "js ''Jane Doe''"
       and err = "Error (js ''quota'')"]
    session_deleted_exactly_when_append_succeeds
    [where m = "textMsg librarian 1001 True (js ''007|Great Book|Jane Doe'')"
       and c = "\<lparr>chat_type = js ''private'', chat_id = 1001\<rparr>"
       and e = "(quietEnv 1700000002000)\<lparr>appendError := Some (Error (js ''quota''))\<rparr>"
       and st = sampleState and cfg = sampleConfig
       and s = "\<lparr>s_file_id = js ''BQACAgQAAx'', s_mimeType = js ''application/pdf''\<rparr>"
       and ?txt = "js ''007|Great Book|Jane Doe''"
       and i = "js ''007''" and t = "js ''Great Book''" and a = "js ''Jane Doe''"
       and err = "Error (js ''quota'')"]
  by (simp add: handler_defs sample_defs2 string_defs Let_def)

text \<open>
  C10, as amended. Every message of a private chat passes the rate limiter before any
  other handling by the message listener: whatever the message is (a document of an
  administrator, a metadata reply, a query), the listener leaves in \<open>lastRequestAt\<close> the
  map that \<open>rateLimit\<close> returns, and when \<open>rateLimit\<close> returns false it only sends the
  slow-down message and changes nothing. So a message that arrives less than
  \<open>RATE_WINDOW_MS\<close> after an admitted event of the same sender is answered by that
  listener with the slow-down message alone: it appends no row and the pending session is
  as it was.
\<close>

theorem rate_limiter_gates_every_private_message:
  assumes "m_chat m = Some c" "chat_type c = js ''private''"
  shows "(\<not> fst (rateLimit (dateNow e) (from_id (m_from m)) (lastRequestAt st))
            \<longrightarrow> onMessage cfg e (Some m) st = ([SendMessage (chat_id c) SlowDown], st))
       \<and> lastRequestAt (snd (onMessage cfg e (Some m) st)) =
            snd (rateLimit (dateNow e) (from_id (m_from m)) (lastRequestAt st))
       \<and> (m_chat m0 = Some c0 \<and> chat_type c0 = js ''private''
            \<and> from_id (m_from m0) = from_id (m_from m)
            \<and> fst (rateLimit (dateNow e0) (from_id (m_from m0)) (lastRequestAt st0))
            \<and> st = snd (onMessage cfg e0 (Some m0) st0)
            \<and> dateNow e - dateNow e0 < RATE_WINDOW_MS
            \<longrightarrow> onMessage cfg e (Some m) st = ([SendMessage (chat_id c) SlowDown], st))"
proof (intro conjI impI)
  assume "\<not> fst (rateLimit (dateNow e) (from_id (m_from m)) (lastRequestAt st))"
  then show "onMessage cfg e (Some m) st = ([SendMessage (chat_id c) SlowDown], st)"
    by (rule onMessage_rejected [OF assms])
next
  show "lastRequestAt (snd (onMessage cfg e (Some m) st)) =
          snd (rateLimit (dateNow e) (from_id (m_from m)) (lastRequestAt st))"
    by (rule onMessage_lastRequestAt [OF assms])
next
  assume h: "m_chat m0 = Some c0 \<and> chat_type c0 = js ''private''
            \<and> from_id (m_from m0) = from_id (m_from m)
            \<and> fst (rateLimit (dateNow e0) (from_id (m_from m0)) (lastRequestAt st0))
            \<and> st = snd (onMessage cfg e0 (Some m0) st0)
            \<and> dateNow e - dateNow e0 < RATE_WINDOW_MS"
  then have adm: "fst (rateLimit (dateNow e0) (from_id (m_from m0)) (lastRequestAt st0))"
    by blast
  from h have "lastRequestAt st = snd (rateLimit (dateNow e0) (from_id (m_from m0)) (lastRequestAt st0))"
    using onMessage_lastRequestAt [of m0 c0 cfg e0 st0] by blast
  then have "lastRequestAt st (from_id (m_from m)) = Some (dateNow e0)"
    using rateLimit_True [OF adm] h by simp
  with h have "\<not> fst (rateLimit (dateNow e) (from_id (m_from m)) (lastRequestAt st))"
    by (simp add: rateLimit_def)
  then show "onMessage cfg e (Some m) st = ([SendMessage (chat_id c) SlowDown], st)"
    by (rule onMessage_rejected [OF assms])
qed

theorem rate_limiter_gates_every_private_message_witness:
  "onMessage sampleConfig (quietEnv 1700000000400)
     (Some (textMsg librarian 1001 True (js ''007|Great Book|Jane Doe'')))
     (snd (onMessage sampleConfig (quietEnv 1700000000000) (Some (uploadMsg None)) emptyState)) =
     ([SendMessage 1001 SlowDown],
      emptyState
        \<lparr>waitingForMeta := [1001 \<mapsto> \<lparr>s_file_id = js ''BQACAgQAAx'', s_mimeType = js ''application/pdf''\<rparr>],
         lastRequestAt := [js ''1001'' \<mapsto> 1700000000000]\<rparr>)"
proof -
  let ?up = "uploadMsg None"
  let ?re = "textMsg librarian 1001 True (js ''007|Great Book|Jane Doe'')"
  let ?c = "\<lparr>chat_type = js ''private'', chat_id = 1001\<rparr>"
  let ?st = "snd (onMessage sampleConfig (quietEnv 1700000000000) (Some ?up) emptyState)"
  have 1: "m_chat ?re = Some ?c" "chat_type ?c = js ''private''" "m_chat ?up = Some ?c"
    "from_id (m_from ?up) = from_id (m_from ?re)"
    by (simp_all add: sample_defs)
  have 2: "fst (rateLimit (dateNow (quietEnv 1700000000000)) (from_id (m_from ?up))
                 (lastRequestAt emptyState))"
    by (simp add: rateLimit_def RATE_WINDOW_MS_def sample_defs)
  have 3: "dateNow (quietEnv 1700000000400) - dateNow (quietEnv 1700000000000) < RATE_WINDOW_MS"
    by (simp add: RATE_WINDOW_MS_def quietEnv_def)
  have "onMessage sampleConfig (quietEnv 1700000000400) (Some ?re) ?st =
          ([SendMessage (chat_id ?c) SlowDown], ?st)"
    using rate_limiter_gates_every_private_message
      [where m = ?re and c = ?c and e = "quietEnv 1700000000400" and st = ?st and cfg = sampleConfig
         and ?m0.0 = ?up and ?c0.0 = ?c and ?e0.0 = "quietEnv 1700000000000" and ?st0.0 = emptyState]
      1 2 3 by blast
  then show ?thesis
    by (simp add: upload_step)
qed

text \<open>
  C10 as stated fails on a message that another listener handles as well. The librarian
  sends a file without a caption and, 400 milliseconds later, replies with
  \<open>/add 9|New Title|X|NEWFILE\<close>. The message listener answers with the slow-down message
  and changes nothing; the listener of \<open>/add\<close>, which receives the same message and does
  not ask the rate limiter, appends the row and reloads.
\<close>

theorem add_listener_not_rate_limited_counterexample:
  "snd (onMessage sampleConfig (quietEnv 1700000000000) (Some (uploadMsg None)) loadedState) =
     sampleState
   \<and> onMessage sampleConfig (quietEnv 1700000000400)
       (Some (textMsg librarian 1001 True (js ''/add 9|New Title|X|NEWFILE''))) sampleState =
     ([SendMessage 1001 SlowDown], sampleState)
   \<and> onAdd sampleConfig (quietEnv 1700000000400)
       (textMsg librarian 1001 True (js ''/add 9|New Title|X|NEWFILE'')) sampleState =
     ([AppendRow [js ''9'', js ''New Title'', js ''X'', js ''NEWFILE''], GetRows,
       SendMessage 1001 (SavedToSheet (js ''New Title''))],
      sampleState
        \<lparr>sheet := sheet sampleState @ [[js ''9'', js ''New Title'', js ''X'', js ''NEWFILE'']],
         books := books sampleState @
                  [\<lparr>b_id = js ''9'', b_title = js ''New Title'', b_author = js ''X'',
                    b_file_id = js ''NEWFILE''\<rparr>],
         fuse := books sampleState @
                 [\<lparr>b_id = js ''9'', b_title = js ''New Title'', b_author = js ''X'',
                   b_file_id = js ''NEWFILE''\<rparr>]\<rparr>)"
proof -
  have 1: "snd (onMessage sampleConfig (quietEnv 1700000000000) (Some (uploadMsg None)) loadedState) =
     sampleState"
    by (simp add: onMessage_def handleUpload_def loadedState_def handler_defs sample_defs2
          string_defs Let_def)
  have 2: "onMessage sampleConfig (quietEnv 1700000000400)
       (Some (textMsg librarian 1001 True (js ''/add 9|New Title|X|NEWFILE''))) sampleState =
     ([SendMessage 1001 SlowDown], sampleState)"
    by (simp add: onMessage_def handler_defs sample_defs2 string_defs Let_def)
  have 3: "onAdd sampleConfig (quietEnv 1700000000400)
       (textMsg librarian 1001 True (js ''/add 9|New Title|X|NEWFILE'')) sampleState =
     ([AppendRow [js ''9'', js ''New Title'', js ''X'', js ''NEWFILE''], GetRows,
       SendMessage 1001 (SavedToSheet (js ''New Title''))],
      sampleState
        \<lparr>sheet := sheet sampleState @ [[js ''9'', js ''New Title'', js ''X'', js ''NEWFILE'']],
         books := books sampleState @
                  [\<lparr>b_id = js ''9'', b_title = js ''New Title'', b_author = js ''X'',
                    b_file_id = js ''NEWFILE''\<rparr>],
         fuse := books sampleState @
                 [\<lparr>b_id = js ''9'', b_title = js ''New Title'', b_author = js ''X'',
                   b_file_id = js ''NEWFILE''\<rparr>]\<rparr>)"
    by (simp add: onAdd_def isLineTerminator_def appendRowToSheet_def reload_def fetchRows_def
          loadSheet_def loadLoop_eq handler_defs sample_defs2 string_defs Let_def)
  from 1 2 3 show ?thesis
    by blast
qed

text \<open>
  The ledger and the fan-out for a query that yields no match: exactly one request is
  appended to \<open>db.requests\<close>; when saving the database and the answer to the requester
  succeed, one delivery is attempted for each entry of \<open>ADMIN_IDS\<close>, in its order,
  whatever the outcome of each delivery, and a failure is logged for exactly the entries
  whose delivery failed.
\<close>

lemma no_match_ledger_and_fan_out:
  assumes "m_chat m = Some c" "chat_type c = js ''private''"
    "fst (rateLimit (dateNow e) (from_id (m_from m)) (lastRequestAt st))"
    "m_document m = None \<or> \<not> isAdmin cfg (from_id (m_from m))"
    "\<not> m_reply_to_message m \<or> waitingForMeta st (chat_id c) = None
       \<or> \<not> isAdmin cfg (from_id (m_from m))"
    "m_text m = Some txt" "txt \<noteq> []" "hd txt \<noteq> 47"
    "safeText (Some (trim txt)) = q" "q \<noteq> []" "fuse_search cfg (fuse st) q = []"
  shows "requests (snd (onMessage cfg e (Some m) st)) =
           requests st @
           [\<lparr>req_id = (reqNow e, from_id (m_from m)), req_userId = from_id (m_from m),
             req_userName =
               trim (if orEmpty (username (m_from m)) \<noteq> [] then orEmpty (username (m_from m))
                     else orEmpty (first_name (m_from m)) @ [32] @ orEmpty (last_name (m_from m))),
             req_query = q, req_createdAt = reqDate e\<rparr>]
       \<and> (saveDBError e = None \<and> userMessageError e = None \<longrightarrow>
            notifiedAdmins (fst (onMessage cfg e (Some m) st)) = ADMIN_IDS cfg
          \<and> loggedFailures (fst (onMessage cfg e (Some m) st)) =
              map fst (filter (\<lambda>p. adminError e (snd p) \<noteq> None)
                         (zip (ADMIN_IDS cfg) [0 ..< length (ADMIN_IDS cfg)])))"
proof -
  have tr: "truthy (m_text m)" and tx: "orEmpty (m_text m) = txt"
    using assms(6,7) by (simp_all add: truthy_def orEmpty_def)
  have step: "onMessage cfg e (Some m) st =
                handleQuery cfg e (chat_id c) (m_from m) txt (admitted e m st)"
    using onMessage_text [OF assms(1-5) tr] assms(8) tx by simp
  have f: "fuse_search cfg (fuse (admitted e m st)) q = []"
    using assms(11) by (simp add: admitted_def)
  note nm = handleQuery_no_match [OF assms(9,10) f, of e "chat_id c" "m_from m"]
  have req: "requests (snd (onMessage cfg e (Some m) st)) =
           requests st @
           [\<lparr>req_id = (reqNow e, from_id (m_from m)), req_userId = from_id (m_from m),
             req_userName =
               trim (if orEmpty (username (m_from m)) \<noteq> [] then orEmpty (username (m_from m))
                     else orEmpty (first_name (m_from m)) @ [32] @ orEmpty (last_name (m_from m))),
             req_query = q, req_createdAt = reqDate e\<rparr>]"
    using step nm(1) by (simp add: admitted_def)
  have fan: "saveDBError e = None \<and> userMessageError e = None \<longrightarrow>
            notifiedAdmins (fst (onMessage cfg e (Some m) st)) = ADMIN_IDS cfg
          \<and> loggedFailures (fst (onMessage cfg e (Some m) st)) =
              map fst (filter (\<lambda>p. adminError e (snd p) \<noteq> None)
                         (zip (ADMIN_IDS cfg) [0 ..< length (ADMIN_IDS cfg)]))"
  proof
    assume "saveDBError e = None \<and> userMessageError e = None"
    then have "fst (onMessage cfg e (Some m) st) =
             [SaveDB, SendMessage (chat_id c)
                        (if isAdmin cfg (from_id (m_from m)) then NoMatchAdmin q
                         else NoMatchUser q)] @
             notifyLoop (adminError e) 0 (ADMIN_IDS cfg)
               \<lparr>n_userId = from_id (m_from m),
                n_userName =
                  trim (if orEmpty (username (m_from m)) \<noteq> [] then orEmpty (username (m_from m))
                        else orEmpty (first_name (m_from m)) @ [32] @ orEmpty (last_name (m_from m))),
                n_query = UserQuery q, n_time = None\<rparr>"
      using step nm(2) by simp
    then show "notifiedAdmins (fst (onMessage cfg e (Some m) st)) = ADMIN_IDS cfg
          \<and> loggedFailures (fst (onMessage cfg e (Some m) st)) =
              map fst (filter (\<lambda>p. adminError e (snd p) \<noteq> None)
                         (zip (ADMIN_IDS cfg) [0 ..< length (ADMIN_IDS cfg)]))"
      using notifiedAdmins_notifyLoop [of "adminError e" 0 "ADMIN_IDS cfg"]
        loggedFailures_notifyLoop [of "adminError e" 0 "ADMIN_IDS cfg"]
      by simp
  qed
  from req fan show ?thesis
    by blast
qed

lemma no_match_ledger_and_fan_out_example:
  "notifiedAdmins
     (fst (onMessage sampleConfig
             ((quietEnv 1700000002000)\<lparr>adminError := (\<lambda>k. if k = 0 then Some (Error (js ''blocked'')) else None)\<rparr>)
             (Some (textMsg reader 77 False (js ''my_book''))) emptyState)) =
     [js ''1001'', js ''1002'']
   \<and> loggedFailures
     (fst (onMessage sampleConfig
             ((quietEnv 1700000002000)\<lparr>adminError := (\<lambda>k. if k = 0 then Some (Error (js ''blocked'')) else None)\<rparr>)
             (Some (textMsg reader 77 False (js ''my_book''))) emptyState)) =
     [js ''1001'']
   \<and> requests
     (snd (onMessage sampleConfig
             ((quietEnv 1700000002000)\<lparr>adminError := (\<lambda>k. if k = 0 then Some (Error (js ''blocked'')) else None)\<rparr>)
             (Some (textMsg reader 77 False (js ''my_book''))) emptyState)) =
     [\<lparr>req_id = (1700000002001, js ''77''), req_userId = js ''77'', req_userName = js ''Ada'',
       req_query = js ''my_book'', req_createdAt = 1700000002002\<rparr>]"
  using no_match_ledger_and_fan_out
    [where m = "textMsg reader 77 False (js ''my_book'')"
       and c = "\<lparr>chat_type = js ''private'', chat_id = 77\<rparr>"
       and e = "(quietEnv 1700000002000)\<lparr>adminError := (\<lambda>k. if k = 0 then Some (Error (js ''blocked'')) else None)\<rparr>"
       and st = emptyState and cfg = sampleConfig and ?txt = "js ''my_book''"
       and q = "js ''my_book''"]
  by (simp add: handler_defs sample_defs2 string_defs upt_rec)

text \<open>
  C8. The handler does not do for every query without a match what C8 says. The reader
  asks for \<open>my_book\<close>, no book matches, and the answer to the reader is rejected (the
  answer puts the query as it is into a Markdown message): the request is in the ledger,
  the error goes to the catch block of the handler, and no delivery to an administrator is
  attempted, though \<open>ADMIN_IDS\<close> has two entries.
\<close>

theorem no_match_fan_out_skipped_when_answer_rejected:
  "fuse_search sampleConfig (fuse emptyState) (js ''my_book'') = []
   \<and> onMessage sampleConfig
       ((quietEnv 1700000002000)\<lparr>userMessageError := Some (Error (js ''parse entities''))\<rparr>)
       (Some (textMsg reader 77 False (js ''my_book''))) emptyState =
     ([SaveDB, SendMessage 77 (NoMatchUser (js ''my_book'')),
       Log (HandlerError (Error (js ''parse entities'')))],
      emptyState
        \<lparr>lastRequestAt := [js ''77'' \<mapsto> 1700000002000],
         requests := [\<lparr>req_id = (1700000002001, js ''77''), req_userId = js ''77'',
                       req_userName = js ''Ada'', req_query = js ''my_book'',
                       req_createdAt = 1700000002002\<rparr>]\<rparr>)
   \<and> notifiedAdmins
       (fst (onMessage sampleConfig
               ((quietEnv 1700000002000)\<lparr>userMessageError := Some (Error (js ''parse entities''))\<rparr>)
               (Some (textMsg reader 77 False (js ''my_book''))) emptyState))
     \<noteq> ADMIN_IDS sampleConfig"
  by (simp add: onMessage_def handleQuery_def handler_defs sample_defs2 string_defs Let_def)

end
